theory Spec2Isabelle
  imports Complex_Main "HOL-Library.AList"
begin

text \<open>
  A model of the appointment routes, the appointment model and the audit recorder of the
  healthcare backend, with the properties of scheduling, access, auditing and update
  that hold of them, and the inputs at which others fail.
\<close>

section \<open>Entity store\<close>

text \<open>
  The models of \<^verbatim>\<open>src/models\<close>. Identifiers are UUID strings. A \<^verbatim>\<open>Date\<close> is the
  integer number of milliseconds since the epoch that \<^verbatim>\<open>getTime()\<close> returns; all
  arithmetic of the routes on dates is done on that number.
\<close>

type_synonym uuid = string
type_synonym millis = int

datatype role = Admin | Doctor | Patient

record user =
  user_id :: uuid
  user_role :: role

record patient =
  patient_id :: uuid
  patient_userId :: uuid

text \<open>
  \<^verbatim>\<open>Doctor.availableHours\<close> is a JSON object with the strings \<^verbatim>\<open>start\<close> and \<^verbatim>\<open>end\<close>
  in the form \<^verbatim>\<open>HH:MM\<close>. A bound is kept as the pair of numbers that
  \<^verbatim>\<open>split(':').map(Number)\<close> reads from it; \<open>None\<close> is a bound that is missing or empty.
  The column is not validated; a bound that is not a string of this form is outside the
  model.
  \<^verbatim>\<open>consultationDuration\<close> is a nullable integer column, validated to lie in 15..120.
\<close>

record available_hours =
  hours_start :: "(nat \<times> nat) option"
  hours_end :: "(nat \<times> nat) option"

record doctor =
  doctor_id :: uuid
  doctor_userId :: uuid
  consultationDuration :: "nat option"
  availableHours :: "available_hours option"

datatype appointment_status =
  Scheduled | Confirmed | In_progress | Completed | Cancelled | No_show

text \<open>The columns of \<^verbatim>\<open>Appointment.js\<close>, in the order of the model.\<close>

record appointment =
  appt_id :: uuid
  patientId :: uuid
  doctorId :: uuid
  appointmentDate :: millis
  duration :: int
  status :: appointment_status
  appt_type :: string
  reason :: "string option"
  symptoms :: "string option"
  appt_notes :: "string option"
  diagnosis :: "string option"
  prescription :: "string option"
  followUpRequired :: "bool option"
  followUpDate :: "millis option"
  cost :: "int option"
  paymentStatus :: string
  reminderSent :: bool
  reminderSentAt :: "millis option"
  cancelledAt :: "millis option"
  cancelledBy :: "uuid option"
  cancellationReason :: "string option"

record store =
  patients :: "patient list"
  doctors :: "doctor list"
  appointments :: "appointment list"

definition Patient_findByPk :: "store \<Rightarrow> uuid \<Rightarrow> patient option" where
  "Patient_findByPk s i = find (\<lambda>p. patient_id p = i) (patients s)"

definition Patient_findOne :: "store \<Rightarrow> uuid \<Rightarrow> patient option" where
  \<comment> \<open>\<^verbatim>\<open>Patient.findOne({ where: { userId } })\<close>\<close>
  "Patient_findOne s uid = find (\<lambda>p. patient_userId p = uid) (patients s)"

definition Doctor_findByPk :: "store \<Rightarrow> uuid \<Rightarrow> doctor option" where
  "Doctor_findByPk s i = find (\<lambda>d. doctor_id d = i) (doctors s)"

definition Doctor_findOne :: "store \<Rightarrow> uuid \<Rightarrow> doctor option" where
  \<comment> \<open>\<^verbatim>\<open>Doctor.findOne({ where: { userId } })\<close>\<close>
  "Doctor_findOne s uid = find (\<lambda>d. doctor_userId d = uid) (doctors s)"

definition Appointment_findByPk :: "store \<Rightarrow> uuid \<Rightarrow> appointment option" where
  "Appointment_findByPk s i = find (\<lambda>a. appt_id a = i) (appointments s)"

text \<open>
  The response envelope: the HTTP status, the \<^verbatim>\<open>message\<close> and the \<^verbatim>\<open>data\<close> of the
  JSON body.
\<close>

record 'a response =
  res_status :: nat
  res_message :: "string option"
  res_data :: "'a option"

definition error_response :: "nat \<Rightarrow> string \<Rightarrow> 'a response" where
  "error_response c m = \<lparr>res_status = c, res_message = Some m, res_data = None\<rparr>"

section \<open>Cancellation eligibility\<close>

text \<open>
  \<^verbatim>\<open>Appointment.prototype.canBeCancelled\<close>. The clock \<^verbatim>\<open>new Date()\<close> is the argument
  \<open>now\<close>. The quotient of the source is a quotient of numbers, not an integer division.
\<close>

definition hoursUntilAppointment :: "appointment \<Rightarrow> millis \<Rightarrow> real" where
  "hoursUntilAppointment a now = real_of_int (appointmentDate a - now) / (1000 * 60 * 60)"

definition canBeCancelled :: "appointment \<Rightarrow> millis \<Rightarrow> bool" where
  "canBeCancelled a now =
     (status a \<in> set [Scheduled, Confirmed] \<and> hoursUntilAppointment a now > 2)"

section \<open>Reading one appointment\<close>

text \<open>
  \<^verbatim>\<open>GET /appointments/:id\<close>: the row is looked up first (404), then the two role
  checks run in the order of the source, each answering 403.
\<close>

definition get_appointment :: "store \<Rightarrow> user \<Rightarrow> uuid \<Rightarrow> appointment response" where
  "get_appointment s u i =
     (case Appointment_findByPk s i of
        None \<Rightarrow> error_response 404 ''Appointment not found''
      | Some a \<Rightarrow>
          if user_role u = Patient \<and>
             (case Patient_findOne s (user_id u) of
                None \<Rightarrow> True
              | Some userPatient \<Rightarrow> patient_id userPatient \<noteq> patientId a)
          then error_response 403 ''Access denied''
          else if user_role u = Doctor \<and>
             (case Doctor_findOne s (user_id u) of
                None \<Rightarrow> True
              | Some userDoctor \<Rightarrow> doctor_id userDoctor \<noteq> doctorId a)
          then error_response 403 ''Access denied''
          else \<lparr>res_status = 200, res_message = None, res_data = Some a\<rparr>)"

section \<open>Booking an appointment\<close>

text \<open>
  A field of the request body, as the validation chain classifies it: absent
  (\<^verbatim>\<open>undefined\<close>), present with a value the validator of the field rejects
  (\<open>Malformed\<close>), or present with a value of the right kind. For \<^verbatim>\<open>patientId\<close> and
  \<^verbatim>\<open>doctorId\<close> the right kind is a UUID string, for \<^verbatim>\<open>appointmentDate\<close> an ISO 8601
  string (kept as the instant \<^verbatim>\<open>new Date\<close> reads from it), for \<^verbatim>\<open>duration\<close> an integer.
\<close>

datatype 'a field = Absent | Malformed | Given 'a

record appointment_body =
  body_patientId :: "uuid field"
  body_doctorId :: "uuid field"
  body_appointmentDate :: "millis field"
  body_duration :: "int field"
  body_type :: "string field"
  body_reason :: "string field"
  body_symptoms :: "string field"

definition required :: "'a field \<Rightarrow> string \<Rightarrow> string list" where
  "required f msg = (case f of Given v \<Rightarrow> [] | _ \<Rightarrow> [msg])"

definition optional :: "'a field \<Rightarrow> ('a \<Rightarrow> bool) \<Rightarrow> string \<Rightarrow> string list" where
  "optional f ok msg =
     (case f of Absent \<Rightarrow> [] | Malformed \<Rightarrow> [msg] | Given v \<Rightarrow> if ok v then [] else [msg])"

definition appointmentValidation :: "appointment_body \<Rightarrow> string list" where
  "appointmentValidation b =
     required (body_patientId b) ''Valid patient ID is required'' @
     required (body_doctorId b) ''Valid doctor ID is required'' @
     required (body_appointmentDate b) ''Valid appointment date is required'' @
     optional (body_duration b) (\<lambda>d. 15 \<le> d \<and> d \<le> 240)
       ''Duration must be between 15 and 240 minutes'' @
     optional (body_type b)
       (\<lambda>t. t \<in> set [''consultation'', ''follow_up'', ''emergency'', ''routine_checkup'',
                      ''specialist_referral''])
       ''Invalid appointment type'' @
     optional (body_reason b) (\<lambda>r. length r \<le> 1000)
       ''Reason must be less than 1000 characters'' @
     optional (body_symptoms b) (\<lambda>r. length r \<le> 2000)
       ''Symptoms must be less than 2000 characters''"

text \<open>
  The \<^verbatim>\<open>findOne\<close> of \<^verbatim>\<open>POST /appointments\<close>: a row of the doctor, scheduled or
  confirmed, whose start lies between the proposed start and end (\<^verbatim>\<open>Op.between\<close> is
  inclusive at both ends), or at most \<open>duration\<close> minutes before the proposed start.
  The row's own duration is not read.
\<close>

definition conflictingAppointment ::
  "store \<Rightarrow> uuid \<Rightarrow> millis \<Rightarrow> int \<Rightarrow> appointment option" where
  "conflictingAppointment s did appointmentStart dur =
     (let appointmentEnd = appointmentStart + dur * 60000 in
      find (\<lambda>a. doctorId a = did \<and> status a \<in> set [Scheduled, Confirmed] \<and>
                ((appointmentStart \<le> appointmentDate a \<and> appointmentDate a \<le> appointmentEnd) \<or>
                 (appointmentDate a \<le> appointmentStart \<and>
                  appointmentDate a \<ge> appointmentStart - dur * 60000)))
        (appointments s))"

text \<open>
  \<^verbatim>\<open>Appointment.create\<close> with the defaults of the model. The primary key is drawn by
  the store (\<^verbatim>\<open>UUIDV4\<close>); it is the argument \<open>newId\<close>.
\<close>

definition Appointment_create ::
  "uuid \<Rightarrow> uuid \<Rightarrow> uuid \<Rightarrow> millis \<Rightarrow> int \<Rightarrow> string \<Rightarrow> string option \<Rightarrow> string option
     \<Rightarrow> appointment" where
  "Appointment_create newId pid did appointmentStart dur ty rsn sy =
     \<lparr>appt_id = newId, patientId = pid, doctorId = did, appointmentDate = appointmentStart,
      duration = dur, status = Scheduled, appt_type = ty, reason = rsn, symptoms = sy,
      appt_notes = None, diagnosis = None, prescription = None,
      followUpRequired = Some False, followUpDate = None, cost = None,
      paymentStatus = ''pending'', reminderSent = False, reminderSentAt = None,
      cancelledAt = None, cancelledBy = None, cancellationReason = None\<rparr>"

definition given :: "'a field \<Rightarrow> 'a option" where
  "given f = (case f of Given v \<Rightarrow> Some v | _ \<Rightarrow> None)"

definition duration_of_body :: "appointment_body \<Rightarrow> int" where
  \<comment> \<open>the destructuring default \<^verbatim>\<open>duration = 30\<close>\<close>
  "duration_of_body b = (case body_duration b of Given d \<Rightarrow> d | _ \<Rightarrow> 30)"

definition type_of_body :: "appointment_body \<Rightarrow> string" where
  \<comment> \<open>the destructuring default \<^verbatim>\<open>type = 'consultation'\<close>\<close>
  "type_of_body b = (case body_type b of Given t \<Rightarrow> t | _ \<Rightarrow> ''consultation'')"

text \<open>
  \<^verbatim>\<open>POST /appointments\<close>, in the order of the handler: validation result (400), patient
  and doctor lookups (404), conflict query (409), future check (400), insert (201).
  The clock read by the future check is \<open>now\<close>. The handler returns the response and
  the store it leaves behind.
\<close>

definition post_appointment ::
  "store \<Rightarrow> millis \<Rightarrow> uuid \<Rightarrow> appointment_body \<Rightarrow> appointment response \<times> store" where
  "post_appointment s now newId b =
     (if appointmentValidation b \<noteq> [] then (error_response 400 ''Validation failed'', s)
      else
        case (body_patientId b, body_doctorId b, body_appointmentDate b) of
          (Given pid, Given did, Given appointmentStart) \<Rightarrow>
            (let dur = duration_of_body b; ty = type_of_body b
             in
               if Patient_findByPk s pid = None
               then (error_response 404 ''Patient not found'', s)
               else if Doctor_findByPk s did = None
               then (error_response 404 ''Doctor not found'', s)
               else if conflictingAppointment s did appointmentStart dur \<noteq> None
               then (error_response 409 ''Doctor is not available at the requested time'', s)
               else if appointmentStart \<le> now
               then (error_response 400 ''Appointment must be scheduled for a future date'', s)
               else
                 (let a = Appointment_create newId pid did appointmentStart dur ty
                            (given (body_reason b)) (given (body_symptoms b))
                  in (\<lparr>res_status = 201,
                       res_message = Some ''Appointment scheduled successfully'',
                       res_data = Some a\<rparr>,
                      s\<lparr>appointments := appointments s @ [a]\<rparr>)))
        | _ \<Rightarrow> (error_response 400 ''Validation failed'', s))"

text \<open>
  The interval of an appointment, as the availability route computes it, and the
  half-open overlap of two intervals.
\<close>

definition appointmentEnd :: "appointment \<Rightarrow> millis" where
  "appointmentEnd a = appointmentDate a + duration a * 60000"

definition overlap :: "millis \<Rightarrow> millis \<Rightarrow> millis \<Rightarrow> millis \<Rightarrow> bool" where
  "overlap s1 e1 s2 e2 = (s1 < e2 \<and> s2 < e1)"

definition active :: "appointment \<Rightarrow> bool" where
  "active a = (status a \<in> set [Scheduled, Confirmed])"

definition appointments_overlap :: "appointment \<Rightarrow> appointment \<Rightarrow> bool" where
  "appointments_overlap a b =
     (doctorId a = doctorId b \<and> active a \<and> active b \<and>
      overlap (appointmentDate a) (appointmentEnd a) (appointmentDate b) (appointmentEnd b))"

section \<open>Availability of a doctor\<close>

record slot =
  slot_start :: millis
  slot_end :: millis
  slot_duration :: nat

text \<open>
  The \<^verbatim>\<open>findAll\<close> of the availability route: the rows of the doctor that start on the
  requested day (\<^verbatim>\<open>Op.between\<close> the first and the last millisecond of the day) and are
  scheduled or confirmed, ordered by their start.
\<close>

definition Appointment_findAll_day ::
  "store \<Rightarrow> uuid \<Rightarrow> millis \<Rightarrow> millis \<Rightarrow> appointment list" where
  "Appointment_findAll_day s did startOfDay endOfDay =
     sort_key appointmentDate
       (filter (\<lambda>a. doctorId a = did \<and>
                     (startOfDay \<le> appointmentDate a \<and> appointmentDate a \<le> endOfDay) \<and>
                     status a \<in> set [Scheduled, Confirmed])
          (appointments s))"

text \<open>
  \<^verbatim>\<open>setHours(h, m, 0, 0)\<close> on a date that stands at midnight, on a day without a
  change of the clock.
\<close>

definition setHours :: "millis \<Rightarrow> nat \<times> nat \<Rightarrow> millis" where
  "setHours startOfDay hm = startOfDay + (int (fst hm) * 60 + int (snd hm)) * 60000"

text \<open>
  The \<^verbatim>\<open>while\<close> loop of the route. \<open>availableSlots\<close> is the array the loop pushes to.
  The loop has no bound of its own: it ends when \<open>currentTime\<close> reaches \<open>endTime\<close>.
\<close>

partial_function (option) slot_loop ::
  "appointment list \<Rightarrow> nat \<Rightarrow> millis \<Rightarrow> millis \<Rightarrow> slot list \<Rightarrow> slot list option" where
  "slot_loop appts dur endTime currentTime availableSlots =
     (if currentTime < endTime
      then slot_loop appts dur endTime (currentTime + int dur * 60000)
             (if \<not> list_ex (\<lambda>a. currentTime < appointmentEnd a \<and>
                                   currentTime + int dur * 60000 > appointmentDate a) appts
              then availableSlots @
                   [\<lparr>slot_start = currentTime, slot_end = currentTime + int dur * 60000,
                     slot_duration = dur\<rparr>]
              else availableSlots)
      else Some availableSlots)"

definition slot_minutes :: "doctor \<Rightarrow> nat" where
  \<comment> \<open>\<^verbatim>\<open>doctor.consultationDuration || 30\<close>\<close>
  "slot_minutes doc =
     (case consultationDuration doc of None \<Rightarrow> 30 | Some d \<Rightarrow> if d = 0 then 30 else d)"

definition startHour :: "doctor \<Rightarrow> nat \<times> nat" where
  \<comment> \<open>\<^verbatim>\<open>doctor.availableHours?.start || '09:00'\<close>, split and read as numbers\<close>
  "startHour doc =
     (case availableHours doc of
        None \<Rightarrow> (9, 0)
      | Some h \<Rightarrow> (case hours_start h of None \<Rightarrow> (9, 0) | Some x \<Rightarrow> x))"

definition endHour :: "doctor \<Rightarrow> nat \<times> nat" where
  \<comment> \<open>\<^verbatim>\<open>doctor.availableHours?.end || '17:00'\<close>, split and read as numbers\<close>
  "endHour doc =
     (case availableHours doc of
        None \<Rightarrow> (17, 0)
      | Some h \<Rightarrow> (case hours_end h of None \<Rightarrow> (17, 0) | Some x \<Rightarrow> x))"

text \<open>
  The slot computation of \<^verbatim>\<open>GET /appointments/doctor/:doctorId/availability\<close> for the
  day that starts at \<open>startOfDay\<close>. \<open>None\<close> is a loop that does not end. Of the data
  of the answer, the slots and the rows of the day are kept.
\<close>

definition availableSlots :: "store \<Rightarrow> uuid \<Rightarrow> doctor \<Rightarrow> millis \<Rightarrow> slot list option" where
  "availableSlots s did doc startOfDay =
     (let endOfDay = startOfDay + 86399999;
          appts = Appointment_findAll_day s did startOfDay endOfDay;
          startTime = setHours startOfDay (startHour doc);
          endTime = setHours startOfDay (endHour doc)
      in slot_loop appts (slot_minutes doc) endTime startTime [])"

record availability =
  avail_slots :: "slot list"
  existingAppointments :: "appointment list"

definition get_availability ::
  "store \<Rightarrow> uuid \<Rightarrow> millis \<Rightarrow> availability response option" where
  "get_availability s did startOfDay =
     (case Doctor_findByPk s did of
        None \<Rightarrow> Some (error_response 404 ''Doctor not found'')
      | Some doc \<Rightarrow>
          map_option
            (\<lambda>slots. \<lparr>res_status = 200, res_message = None,
                       res_data = Some \<lparr>avail_slots = slots,
                         existingAppointments =
                           Appointment_findAll_day s did startOfDay (startOfDay + 86399999)\<rparr>\<rparr>)
            (availableSlots s did doc startOfDay))"

subsection \<open>The partition of the daily window\<close>

text \<open>
  The reference the slots are compared with. The window from its start to its end is
  cut into consecutive chunks of the consultation length, from the start of the window:
  chunk \<open>k\<close> starts \<open>k\<close> lengths after the start, and the chunks of the partition are
  those that lie in the window, that is, that end at or before its end. A chunk is kept
  when it overlaps no scheduled or confirmed appointment of the doctor, by the
  half-open rule.
\<close>

definition chunk :: "millis \<Rightarrow> nat \<Rightarrow> nat \<Rightarrow> slot" where
  "chunk windowStart dur k =
     \<lparr>slot_start = windowStart + int k * (int dur * 60000),
      slot_end = windowStart + int k * (int dur * 60000) + int dur * 60000,
      slot_duration = dur\<rparr>"

definition chunk_count :: "millis \<Rightarrow> millis \<Rightarrow> nat \<Rightarrow> nat" where
  "chunk_count windowStart windowEnd dur =
     nat ((windowEnd - windowStart) div (int dur * 60000))"

definition free_of :: "appointment list \<Rightarrow> slot \<Rightarrow> bool" where
  "free_of appts c =
     (\<not> list_ex (\<lambda>a. overlap (slot_start c) (slot_end c) (appointmentDate a) (appointmentEnd a))
          appts)"

definition booked :: "store \<Rightarrow> uuid \<Rightarrow> appointment list" where
  \<comment> \<open>every scheduled or confirmed appointment of the doctor\<close>
  "booked s did = filter (\<lambda>a. doctorId a = did \<and> active a) (appointments s)"

definition reference_slots :: "appointment list \<Rightarrow> millis \<Rightarrow> millis \<Rightarrow> nat \<Rightarrow> slot list" where
  "reference_slots appts windowStart windowEnd dur =
     filter (free_of appts) (map (chunk windowStart dur) [0..<chunk_count windowStart windowEnd dur])"

text \<open>
  The number of rounds of the loop of the route, for a positive length: one round for
  every chunk that starts before \<open>endTime\<close>.
\<close>

definition loop_count :: "millis \<Rightarrow> millis \<Rightarrow> nat \<Rightarrow> nat" where
  "loop_count startTime endTime dur =
     nat ((endTime - startTime + int dur * 60000 - 1) div (int dur * 60000))"

section \<open>Audit recorder\<close>

text \<open>
  JSON values, for the request and response data the recorder stores. Numbers are
  integers; an object is the list of its properties in order.
\<close>

datatype json =
  JNull | JBool bool | JNum int | JStr string | JArr "json list" | JObj "(string \<times> json) list"

type_synonym obj = "(string \<times> json) list"

definition truthy :: "json \<Rightarrow> bool" where
  "truthy v =
     (case v of JNull \<Rightarrow> False | JBool b \<Rightarrow> b | JNum n \<Rightarrow> n \<noteq> 0 | JStr s \<Rightarrow> s \<noteq> []
      | JArr xs \<Rightarrow> True | JObj ps \<Rightarrow> True)"

definition prop_of :: "json \<Rightarrow> string \<Rightarrow> json option" where
  \<comment> \<open>property access; \<open>None\<close> is \<^verbatim>\<open>undefined\<close>\<close>
  "prop_of v k = (case v of JObj ps \<Rightarrow> map_of ps k | _ \<Rightarrow> None)"

definition or_else :: "json option \<Rightarrow> json \<Rightarrow> json" where
  \<comment> \<open>\<^verbatim>\<open>x || d\<close>\<close>
  "or_else x d = (case x of None \<Rightarrow> d | Some v \<Rightarrow> if truthy v then v else d)"

fun str_includes :: "string \<Rightarrow> string \<Rightarrow> bool" where
  "str_includes [] sub = (sub = [])"
| "str_includes (c # cs) sub = (take (length sub) (c # cs) = sub \<or> str_includes cs sub)"

text \<open>
  The request as the recorder reads it. \<open>req_statusCode\<close> is the property
  \<^verbatim>\<open>req.statusCode\<close>; \<open>None\<close> is a request that carries no such number.
\<close>

record request =
  req_method :: string
  req_path :: string
  req_user :: "user option"
  req_statusCode :: "int option"
  req_body :: "obj option"
  req_query :: "obj option"
  req_params :: "obj option"

definition at_least :: "int option \<Rightarrow> int \<Rightarrow> bool" where
  \<comment> \<open>\<^verbatim>\<open>x >= n\<close> for a property that may be missing: the comparison is then false\<close>
  "at_least x n = (case x of None \<Rightarrow> False | Some v \<Rightarrow> v \<ge> n)"

definition role_name :: "role \<Rightarrow> string" where
  "role_name r = (case r of Admin \<Rightarrow> ''admin'' | Doctor \<Rightarrow> ''doctor'' | Patient \<Rightarrow> ''patient'')"

definition getActionFromRequest :: "request \<Rightarrow> string" where
  "getActionFromRequest req =
     (if str_includes (req_path req) ''/auth/login'' then ''login_attempt''
      else if str_includes (req_path req) ''/auth/logout'' then ''logout''
      else if str_includes (req_path req) ''/auth/register'' then ''user_registration''
      else if str_includes (req_path req) ''/auth/change-password'' then ''password_change''
      else if req_method req = ''GET'' then ''read''
      else if req_method req = ''POST'' then ''create''
      else if req_method req = ''PUT'' \<or> req_method req = ''PATCH'' then ''update''
      else if req_method req = ''DELETE'' then ''delete''
      else ''unknown'')"

definition getResourceFromEndpoint :: "string \<Rightarrow> string" where
  "getResourceFromEndpoint path =
     (if str_includes path ''/users'' then ''user''
      else if str_includes path ''/patients'' then ''patient''
      else if str_includes path ''/doctors'' then ''doctor''
      else if str_includes path ''/appointments'' then ''appointment''
      else if str_includes path ''/medical-records'' then ''medical_record''
      else if str_includes path ''/patient-doctors'' then ''patient_doctor_relationship''
      else if str_includes path ''/auth'' then ''authentication''
      else if str_includes path ''/upload'' then ''file_upload''
      else ''unknown'')"

definition getCategoryFromRequest :: "request \<Rightarrow> string \<Rightarrow> string" where
  "getCategoryFromRequest req action =
     (if str_includes (req_path req) ''/auth'' then ''authentication''
      else if action = ''read'' \<and> map_option user_role (req_user req) = Some Patient
      then ''data_access''
      else if action \<in> set [''create'', ''update'', ''delete''] then ''data_modification''
      else if str_includes (req_path req) ''/upload'' then ''system''
      else if at_least (req_statusCode req) 400 then ''error''
      else ''system'')"

definition getSeverityFromRequest :: "request \<Rightarrow> string \<Rightarrow> string" where
  "getSeverityFromRequest req action =
     (let statusCode = req_statusCode req in
      if action = ''login_attempt'' \<and> at_least statusCode 400 then ''high''
      else if str_includes (req_path req) ''/auth/change-password'' then ''high''
      else if action = ''delete'' then ''high''
      else if at_least statusCode 500 then ''critical''
      else if at_least statusCode 400 then ''medium''
      else ''low'')"

fun show_nat :: "nat \<Rightarrow> string" where
  "show_nat n =
     (if n < 10 then [char_of (48 + n)] else show_nat (n div 10) @ [char_of (48 + n mod 10)])"

definition generateDescription :: "request \<Rightarrow> string \<Rightarrow> nat \<Rightarrow> string" where
  "generateDescription req action statusCode =
     (case req_user req of None \<Rightarrow> ''anonymous'' | Some u \<Rightarrow> role_name (user_role u)) @
     '' performed '' @ action @ '' on '' @ req_path req @
     (if statusCode \<ge> 400 then '' (failed with status '' @ show_nat statusCode @ '')''
      else '' (successful)'')"

definition sensitiveFields :: "string list" where
  "sensitiveFields = [''password'', ''token'', ''secret'', ''key'', ''ssn'', ''creditCard'']"

definition redact :: "string \<Rightarrow> obj \<Rightarrow> obj" where
  \<comment> \<open>\<^verbatim>\<open>if (sanitized.body[field]) sanitized.body[field] = '[REDACTED]'\<close>\<close>
  "redact field b =
     (case map_of b field of
        None \<Rightarrow> b
      | Some v \<Rightarrow> if truthy v then AList.update field (JStr ''[REDACTED]'') b else b)"

definition sanitizeRequestData :: "obj option \<Rightarrow> obj option \<Rightarrow> obj option \<Rightarrow> json" where
  "sanitizeRequestData body query params =
     JObj ([(''params'', JObj (case params of None \<Rightarrow> [] | Some p \<Rightarrow> p)),
            (''query'', JObj (case query of None \<Rightarrow> [] | Some q \<Rightarrow> q))] @
           (case body of
              None \<Rightarrow> []
            | Some b \<Rightarrow> [(''body'', JObj (fold redact sensitiveFields b))]))"

text \<open>
  What \<^verbatim>\<open>res.send\<close> was called with: a string that is not JSON text, a string that is
  the JSON text of a value, or a value that is not a string.
\<close>

datatype payload = Text string | Json_text json | Object json

definition payload_truthy :: "payload \<Rightarrow> bool" where
  "payload_truthy d =
     (case d of Text t \<Rightarrow> t \<noteq> [] | Json_text v \<Rightarrow> True | Object v \<Rightarrow> truthy v)"

definition summary :: "json \<Rightarrow> json" where
  "summary parsed =
     JObj [(''status'', or_else (prop_of parsed ''status'') (JStr ''unknown'')),
           (''message'', or_else (prop_of parsed ''message'') JNull),
           (''dataCount'',
              (case prop_of parsed ''data'' of
                 None \<Rightarrow> JNum 0
               | Some d \<Rightarrow>
                   if truthy d
                   then (case d of JArr xs \<Rightarrow> JNum (int (length xs)) | _ \<Rightarrow> JNum 1)
                   else JNum 0))]"

definition parse_failure :: json where
  "parse_failure = JObj [(''error'', JStr ''Failed to parse response data'')]"

definition sanitizeResponseData :: "payload option \<Rightarrow> json" where
  "sanitizeResponseData data =
     (case data of
        None \<Rightarrow> JNull
      | Some d \<Rightarrow>
          if \<not> payload_truthy d then JNull
          else (case d of
                  Text t \<Rightarrow> parse_failure
                | Json_text v \<Rightarrow> (if v = JNull then parse_failure else summary v)
                | Object v \<Rightarrow> summary v))"

record http_response =
  statusCode :: nat
  sent :: "payload option"

text \<open>The argument of \<^verbatim>\<open>AuditLog.logAction\<close> and the row it creates.\<close>

record audit_data =
  data_userId :: "uuid option"
  data_action :: string
  data_resource :: string
  data_resourceId :: "json option"
  data_method :: "string option"
  data_endpoint :: "string option"
  data_requestData :: "json option"
  data_responseData :: "json option"
  data_statusCode :: "nat option"
  data_severity :: "string option"
  data_category :: "string option"
  data_description :: "string option"
  data_isSuccessful :: "bool option"
  data_errorMessage :: "payload option"

record audit_entry =
  userId :: "uuid option"
  action :: string
  resource :: string
  resourceId :: "json option"
  httpMethod :: "string option"
  endpoint :: "string option"
  requestData :: "json option"
  responseData :: "json option"
  entry_statusCode :: "nat option"
  severity :: string
  category :: string
  description :: "string option"
  isSuccessful :: bool
  errorMessage :: "payload option"

record server =
  srv_store :: store
  srv_auditLogs :: "audit_entry list"
  srv_auditUp :: bool
  srv_console :: "string list"

datatype error = ConnectionError | ValidationError | DatabaseError

text \<open>
  \<^verbatim>\<open>AuditLog.create\<close>: it throws when the audit table cannot be reached, when a
  validator of the model fails (\<^verbatim>\<open>len: [1, 100]\<close> on action and resource), or when a
  value is not in the \<^verbatim>\<open>ENUM\<close> of its column. The table has further limits that are
  not modelled (the UUID syntax of \<open>resourceId\<close>, the 255 characters of a string
  column): they are more ways for \<^verbatim>\<open>create\<close> to throw, and a row refused for them is
  accepted here.
\<close>

definition AuditLog_create :: "audit_entry \<Rightarrow> server \<Rightarrow> error + audit_entry \<times> server" where
  "AuditLog_create row st =
     (if \<not> srv_auditUp st then Inl ConnectionError
      else if \<not> (1 \<le> length (action row) \<and> length (action row) \<le> 100) \<or>
              \<not> (1 \<le> length (resource row) \<and> length (resource row) \<le> 100)
      then Inl ValidationError
      else if (case httpMethod row of
                 None \<Rightarrow> False
               | Some m \<Rightarrow> m \<notin> set [''GET'', ''POST'', ''PUT'', ''PATCH'', ''DELETE'']) \<or>
              severity row \<notin> set [''low'', ''medium'', ''high'', ''critical''] \<or>
              category row \<notin> set [''authentication'', ''authorization'', ''data_access'',
                                    ''data_modification'', ''system'', ''security'', ''error'']
      then Inl DatabaseError
      else Inr (row, st\<lparr>srv_auditLogs := srv_auditLogs st @ [row]\<rparr>))"

text \<open>
  \<^verbatim>\<open>AuditLog.logAction\<close>: the \<^verbatim>\<open>catch\<close> writes to the console and returns
  \<^verbatim>\<open>null\<close>.
\<close>

definition logAction :: "audit_data \<Rightarrow> server \<Rightarrow> audit_entry option \<times> server" where
  "logAction data st =
     (case AuditLog_create
             \<lparr>userId = data_userId data, action = data_action data,
              resource = data_resource data, resourceId = data_resourceId data,
              httpMethod = data_method data, endpoint = data_endpoint data,
              requestData = data_requestData data, responseData = data_responseData data,
              entry_statusCode = data_statusCode data,
              severity = (case data_severity data of None \<Rightarrow> ''low'' | Some v \<Rightarrow>
                            if v = [] then ''low'' else v),
              category = (case data_category data of None \<Rightarrow> ''system'' | Some v \<Rightarrow>
                            if v = [] then ''system'' else v),
              description = data_description data,
              isSuccessful = (data_isSuccessful data \<noteq> Some False),
              errorMessage = data_errorMessage data\<rparr> st of
        Inr (entry, st') \<Rightarrow> (Some entry, st')
      | Inl e \<Rightarrow> (None, st\<lparr>srv_console := srv_console st @ [''Failed to create audit log:'']\<rparr>))"

text \<open>
  The middleware \<^verbatim>\<open>auditLogger\<close> around a route handler \<open>handler\<close>, which reads and
  writes the entity store and finalises the response. Action, resource, category and
  severity are derived when the request comes in; \<^verbatim>\<open>next()\<close> runs the handler; the
  listener of \<^verbatim>\<open>finish\<close> runs once the response is sent and calls \<open>logAction\<close>.
  Address, user agent, timing, metadata and session id are copied from the request
  and the clock and are left out of the row. The listener wraps the call in a
  \<^verbatim>\<open>try\<close> of its own; \<open>logAction\<close> has caught the failure of the write before.
\<close>

definition on_finish ::
  "request \<Rightarrow> http_response \<Rightarrow> string \<Rightarrow> string \<Rightarrow> string \<Rightarrow> string \<Rightarrow> server \<Rightarrow> server" where
  "on_finish req res act rsrc cat sev st =
     snd (logAction
       \<lparr>data_userId = map_option user_id (req_user req),
        data_action = act, data_resource = rsrc,
        data_resourceId =
          (case req_params req of None \<Rightarrow> None | Some p \<Rightarrow>
             (case map_of p ''id'' of None \<Rightarrow> None | Some v \<Rightarrow> if truthy v then Some v else None)),
        data_method = Some (req_method req), data_endpoint = Some (req_path req),
        data_requestData =
          Some (sanitizeRequestData (req_body req) (req_query req) (req_params req)),
        data_responseData = Some (sanitizeResponseData (sent res)),
        data_statusCode = Some (statusCode res),
        data_severity = Some sev, data_category = Some cat,
        data_description = Some (generateDescription req act (statusCode res)),
        data_isSuccessful = Some (statusCode res < 400),
        data_errorMessage = (if statusCode res \<ge> 400 then sent res else None)\<rparr> st)"

definition auditLogger ::
  "(request \<Rightarrow> store \<Rightarrow> http_response \<times> store) \<Rightarrow> request \<Rightarrow> server
     \<Rightarrow> http_response \<times> server" where
  "auditLogger handler req st =
     (let act = getActionFromRequest req;
          rsrc = getResourceFromEndpoint (req_path req);
          cat = getCategoryFromRequest req act;
          sev = getSeverityFromRequest req act;
          (res, store') = handler req (srv_store st)
      in (res, on_finish req res act rsrc cat sev (st\<lparr>srv_store := store'\<rparr>)))"

text \<open>\<^verbatim>\<open>logAuthenticationEvent\<close> and \<^verbatim>\<open>auditLoginAttempt\<close>.\<close>

definition logAuthenticationEvent :: "audit_data \<Rightarrow> server \<Rightarrow> audit_entry option \<times> server" where
  "logAuthenticationEvent data st =
     logAction (data\<lparr>data_category := Some ''authentication'',
       data_severity := Some (case data_severity data of None \<Rightarrow> ''medium'' | Some v \<Rightarrow>
                                if v = [] then ''medium'' else v)\<rparr>) st"

definition auditLoginAttempt :: "request \<Rightarrow> bool \<Rightarrow> server \<Rightarrow> audit_entry option \<times> server" where
  "auditLoginAttempt req successful st =
     logAuthenticationEvent
       \<lparr>data_userId = map_option user_id (req_user req),
        data_action = ''login_attempt'', data_resource = ''authentication'',
        data_resourceId = None, data_method = None, data_endpoint = None,
        data_requestData =
          Some (JObj (case req_body req of None \<Rightarrow> [] | Some b \<Rightarrow>
                        (case map_of b ''email'' of None \<Rightarrow> [] | Some e \<Rightarrow> [(''email'', e)]))),
        data_responseData = None,
        data_statusCode = Some (if successful then 200 else 401),
        data_severity = None, data_category = None,
        data_description = Some (if successful then ''Successful login'' else ''Failed login attempt''),
        data_isSuccessful = Some successful,
        data_errorMessage = None\<rparr> st"


text \<open>
  The number the summary of a response gives for its \<open>data\<close>: the length of an array,
  1 for any other truthy value, 0 when there is none or it is falsy.
\<close>

definition item_count :: "json option \<Rightarrow> int" where
  "item_count d =
     (case d of
        None \<Rightarrow> 0
      | Some (JArr xs) \<Rightarrow> int (length xs)
      | Some v \<Rightarrow> if truthy v then 1 else 0)"

text \<open>A property of an object that is present with a truthy value.\<close>

definition truthy_at :: "obj \<Rightarrow> string \<Rightarrow> bool" where
  "truthy_at b k = (\<exists>v. map_of b k = Some v \<and> truthy v)"


section \<open>Updating an appointment\<close>

definition allowedFields :: "role \<Rightarrow> string list" where
  "allowedFields r =
     [''notes'', ''diagnosis'', ''prescription'', ''followUpRequired'', ''followUpDate''] @
     (if r = Doctor then [''status'', ''cost'', ''paymentStatus''] else [])"

definition updateData :: "role \<Rightarrow> obj \<Rightarrow> obj" where
  \<comment> \<open>the keys of the body, in order, that \<open>allowedFields\<close> includes\<close>
  "updateData r body = filter (\<lambda>(key, v). key \<in> set (allowedFields r)) body"

text \<open>
  \<^verbatim>\<open>appointment.update(updateData)\<close> is the ORM's: it assigns every key of its argument
  that names a column of the model, whatever the column, and saves the row; a key that
  names no column is ignored, and a value the column does not take makes it throw. A
  column takes the JSON values of its type (a date is given by its milliseconds), within
  the bounds and the enumerations of \<^verbatim>\<open>Appointment.js\<close>. The ORM also coerces some
  values of another type (a number given for a text column is stored as its digits);
  such a value is refused here, so that the column is written in fewer cases than in
  the ORM, and never another column.
\<close>

definition uuid_column :: "json \<Rightarrow> uuid option" where
  "uuid_column v = (case v of JStr s \<Rightarrow> Some s | _ \<Rightarrow> None)"

definition date_column :: "json \<Rightarrow> millis option" where
  "date_column v = (case v of JNum t \<Rightarrow> Some t | _ \<Rightarrow> None)"

definition bool_column :: "json \<Rightarrow> bool option" where
  "bool_column v = (case v of JBool b \<Rightarrow> Some b | _ \<Rightarrow> None)"

definition text_column :: "json \<Rightarrow> string option" where
  "text_column v = (case v of JStr s \<Rightarrow> Some s | _ \<Rightarrow> None)"

definition nullable :: "(json \<Rightarrow> 'a option) \<Rightarrow> json \<Rightarrow> 'a option option" where
  "nullable col v = (if v = JNull then Some None else map_option Some (col v))"

definition duration_column :: "json \<Rightarrow> int option" where
  "duration_column v = (case v of JNum n \<Rightarrow> if 15 \<le> n \<and> n \<le> 240 then Some n else None | _ \<Rightarrow> None)"

definition cost_column :: "json \<Rightarrow> int option" where
  "cost_column v = (case v of JNum n \<Rightarrow> if 0 \<le> n then Some n else None | _ \<Rightarrow> None)"

definition enum_column :: "string list \<Rightarrow> json \<Rightarrow> string option" where
  "enum_column names v = (case v of JStr s \<Rightarrow> if s \<in> set names then Some s else None | _ \<Rightarrow> None)"

definition status_column :: "json \<Rightarrow> appointment_status option" where
  "status_column v =
     (case v of
        JStr s \<Rightarrow>
          map_of [(''scheduled'', Scheduled), (''confirmed'', Confirmed),
                  (''in_progress'', In_progress), (''completed'', Completed),
                  (''cancelled'', Cancelled), (''no_show'', No_show)] s
      | _ \<Rightarrow> None)"

definition columns :: "(string \<times> (json \<Rightarrow> appointment \<Rightarrow> appointment option)) list" where
  "columns =
     [(''id'', \<lambda>v a. map_option (\<lambda>x. a\<lparr>appt_id := x\<rparr>) (uuid_column v)),
      (''patientId'', \<lambda>v a. map_option (\<lambda>x. a\<lparr>patientId := x\<rparr>) (uuid_column v)),
      (''doctorId'', \<lambda>v a. map_option (\<lambda>x. a\<lparr>doctorId := x\<rparr>) (uuid_column v)),
      (''appointmentDate'', \<lambda>v a. map_option (\<lambda>x. a\<lparr>appointmentDate := x\<rparr>) (date_column v)),
      (''duration'', \<lambda>v a. map_option (\<lambda>x. a\<lparr>duration := x\<rparr>) (duration_column v)),
      (''status'', \<lambda>v a. map_option (\<lambda>x. a\<lparr>status := x\<rparr>) (status_column v)),
      (''type'', \<lambda>v a. map_option (\<lambda>x. a\<lparr>appt_type := x\<rparr>)
         (enum_column [''consultation'', ''follow_up'', ''emergency'', ''routine_checkup'',
                       ''specialist_referral''] v)),
      (''reason'', \<lambda>v a. map_option (\<lambda>x. a\<lparr>reason := x\<rparr>) (nullable text_column v)),
      (''symptoms'', \<lambda>v a. map_option (\<lambda>x. a\<lparr>symptoms := x\<rparr>) (nullable text_column v)),
      (''notes'', \<lambda>v a. map_option (\<lambda>x. a\<lparr>appt_notes := x\<rparr>) (nullable text_column v)),
      (''diagnosis'', \<lambda>v a. map_option (\<lambda>x. a\<lparr>diagnosis := x\<rparr>) (nullable text_column v)),
      (''prescription'', \<lambda>v a. map_option (\<lambda>x. a\<lparr>prescription := x\<rparr>) (nullable text_column v)),
      (''followUpRequired'',
         \<lambda>v a. map_option (\<lambda>x. a\<lparr>followUpRequired := x\<rparr>) (nullable bool_column v)),
      (''followUpDate'', \<lambda>v a. map_option (\<lambda>x. a\<lparr>followUpDate := x\<rparr>) (nullable date_column v)),
      (''cost'', \<lambda>v a. map_option (\<lambda>x. a\<lparr>cost := x\<rparr>) (nullable cost_column v)),
      (''paymentStatus'', \<lambda>v a. map_option (\<lambda>x. a\<lparr>paymentStatus := x\<rparr>)
         (enum_column [''pending'', ''paid'', ''partial'', ''cancelled''] v)),
      (''reminderSent'', \<lambda>v a. map_option (\<lambda>x. a\<lparr>reminderSent := x\<rparr>) (bool_column v)),
      (''reminderSentAt'',
         \<lambda>v a. map_option (\<lambda>x. a\<lparr>reminderSentAt := x\<rparr>) (nullable date_column v)),
      (''cancelledAt'', \<lambda>v a. map_option (\<lambda>x. a\<lparr>cancelledAt := x\<rparr>) (nullable date_column v)),
      (''cancelledBy'', \<lambda>v a. map_option (\<lambda>x. a\<lparr>cancelledBy := x\<rparr>) (nullable uuid_column v)),
      (''cancellationReason'',
         \<lambda>v a. map_option (\<lambda>x. a\<lparr>cancellationReason := x\<rparr>) (nullable text_column v))]"

definition set_column :: "string \<times> json \<Rightarrow> appointment \<Rightarrow> appointment option" where
  "set_column kv a =
     (case map_of columns (fst kv) of None \<Rightarrow> Some a | Some assign \<Rightarrow> assign (snd kv) a)"

fun set_columns :: "obj \<Rightarrow> appointment \<Rightarrow> appointment option" where
  "set_columns [] a = Some a"
| "set_columns (kv # kvs) a =
     (case set_column kv a of None \<Rightarrow> None | Some a' \<Rightarrow> set_columns kvs a')"

definition Appointment_update :: "obj \<Rightarrow> appointment \<Rightarrow> error + appointment" where
  "Appointment_update values a =
     (case set_columns values a of None \<Rightarrow> Inl ValidationError | Some a' \<Rightarrow> Inr a')"

text \<open>
  The request of \<^verbatim>\<open>PUT /appointments/:id\<close>: the actor, the id of the path, the body
  as the validation chain classifies it, and the body as the object whose keys the
  handler walks.
\<close>

record put_request =
  put_user :: user
  put_id :: uuid
  put_fields :: appointment_body
  put_body :: obj

definition put_appointment :: "store \<Rightarrow> put_request \<Rightarrow> appointment response \<times> store" where
  "put_appointment s r =
     (if appointmentValidation (put_fields r) \<noteq> []
      then (error_response 400 ''Validation failed'', s)
      else
        case Appointment_findByPk s (put_id r) of
          None \<Rightarrow> (error_response 404 ''Appointment not found'', s)
        | Some a \<Rightarrow>
            if user_role (put_user r) = Patient \<and>
               (case Patient_findOne s (user_id (put_user r)) of
                  None \<Rightarrow> True
                | Some userPatient \<Rightarrow> patient_id userPatient \<noteq> patientId a)
            then (error_response 403 ''Access denied'', s)
            else if user_role (put_user r) = Doctor \<and>
               (case Doctor_findOne s (user_id (put_user r)) of
                  None \<Rightarrow> True
                | Some userDoctor \<Rightarrow> doctor_id userDoctor \<noteq> doctorId a)
            then (error_response 403 ''Access denied'', s)
            else
              case Appointment_update (updateData (user_role (put_user r)) (put_body r)) a of
                Inl e \<Rightarrow> (error_response 500 ''Internal server error'', s)
              | Inr a' \<Rightarrow>
                  (\<lparr>res_status = 200, res_message = Some ''Appointment updated successfully'',
                    res_data = Some a'\<rparr>,
                   s\<lparr>appointments :=
                       map (\<lambda>x. if appt_id x = appt_id a then a' else x) (appointments s)\<rparr>))"

text \<open>
  An appointment with the five fields every actor may write blanked, and with the
  three more a doctor may write blanked as well: two rows agree outside these fields
  when their blanked copies are equal.
\<close>

definition outside_five :: "appointment \<Rightarrow> appointment" where
  "outside_five a =
     a\<lparr>appt_notes := None, diagnosis := None, prescription := None,
       followUpRequired := None, followUpDate := None\<rparr>"

definition outside_eight :: "appointment \<Rightarrow> appointment" where
  "outside_eight a = (outside_five a)\<lparr>status := Scheduled, cost := None, paymentStatus := []\<rparr>"


section \<open>Sample data\<close>

text \<open>
  A store with two patients and one doctor, used to run the handlers on concrete
  requests.
\<close>

definition demo_patients :: "patient list" where
  "demo_patients = [\<lparr>patient_id = ''p1'', patient_userId = ''u1''\<rparr>,
                    \<lparr>patient_id = ''p2'', patient_userId = ''u2''\<rparr>]"

definition demo_appointment :: "uuid \<Rightarrow> millis \<Rightarrow> int \<Rightarrow> appointment" where
  "demo_appointment i t d = Appointment_create i ''p1'' ''d1'' t d ''consultation'' None None"

definition night_doctor :: doctor where
  "night_doctor = \<lparr>doctor_id = ''d1'', doctor_userId = ''u3'', consultationDuration = Some 30,
     availableHours = Some \<lparr>hours_start = Some (0, 0), hours_end = Some (1, 0)\<rparr>\<rparr>"

definition night_store :: "appointment list \<Rightarrow> store" where
  "night_store as = \<lparr>patients = demo_patients, doctors = [night_doctor], appointments = as\<rparr>"

definition short_doctor :: doctor where
  "short_doctor = \<lparr>doctor_id = ''d1'', doctor_userId = ''u3'', consultationDuration = Some 45,
     availableHours = Some \<lparr>hours_start = Some (9, 0), hours_end = Some (10, 0)\<rparr>\<rparr>"

definition short_store :: "appointment list \<Rightarrow> store" where
  "short_store as = \<lparr>patients = demo_patients, doctors = [short_doctor], appointments = as\<rparr>"

definition day_doctor :: doctor where
  "day_doctor = \<lparr>doctor_id = ''d1'', doctor_userId = ''u3'', consultationDuration = Some 30,
     availableHours = Some \<lparr>hours_start = Some (9, 0), hours_end = Some (17, 0)\<rparr>\<rparr>"


definition demo_store :: "appointment list \<Rightarrow> store" where
  "demo_store as = \<lparr>patients = demo_patients, doctors = [day_doctor], appointments = as\<rparr>"

definition demo_body :: "millis \<Rightarrow> int \<Rightarrow> appointment_body" where
  "demo_body t d = \<lparr>body_patientId = Given ''p1'', body_doctorId = Given ''d1'',
     body_appointmentDate = Given t, body_duration = Given d, body_type = Absent,
     body_reason = Absent, body_symptoms = Absent\<rparr>"


definition login_request :: request where
  "login_request = \<lparr>req_method = ''POST'', req_path = ''/api/auth/login'', req_user = None,
     req_statusCode = None,
     req_body = Some [(''email'', JStr ''ann@example.org''), (''password'', JStr ''wrong'')],
     req_query = None, req_params = None\<rparr>"

definition failed_login :: "request \<Rightarrow> store \<Rightarrow> http_response \<times> store" where
  "failed_login req s =
     (\<lparr>statusCode = 401,
       sent = Some (Json_text (JObj [(''status'', JStr ''error''),
                                     (''message'', JStr ''Invalid credentials'')]))\<rparr>, s)"

definition register_request :: request where
  "register_request = \<lparr>req_method = ''POST'', req_path = ''/api/auth/register'',
     req_user = None, req_statusCode = None,
     req_body = Some [(''email'', JStr ''ann@example.org''),
                      (''credentials'', JObj [(''password'', JStr ''hunter2'')])],
     req_query = None, req_params = None\<rparr>"

definition failed_register :: "request \<Rightarrow> store \<Rightarrow> http_response \<times> store" where
  "failed_register req s =
     (\<lparr>statusCode = 400,
       sent = Some (Json_text (JObj [(''status'', JStr ''error''),
                (''message'', JStr ''Validation failed''),
                (''errors'', JArr [JObj [(''msg'', JStr ''First name is required''),
                                         (''param'', JStr ''firstName'')]])]))\<rparr>, s)"

definition demo_server :: server where
  "demo_server = \<lparr>srv_store = demo_store [], srv_auditLogs = [], srv_auditUp = True,
     srv_console = []\<rparr>"


definition demo_put :: put_request where
  "demo_put = \<lparr>put_user = \<lparr>user_id = ''u1'', user_role = Patient\<rparr>, put_id = ''a1'',
     put_fields = demo_body 0 30,
     put_body = [(''notes'', JStr ''bring results''), (''appointmentDate'', JNum 0),
                 (''duration'', JNum 240), (''patientId'', JStr ''p2''),
                 (''doctorId'', JStr ''d9''), (''status'', JStr ''cancelled'')]\<rparr>"


section \<open>Properties\<close>

subsection \<open>Cancellation\<close>

text \<open>
  Claim C5. \<open>canBeCancelled\<close> holds exactly when the status is scheduled or confirmed
  and the appointment starts more than two hours (7200000 ms) after \<open>now\<close>. It holds
  for a scheduled appointment three hours ahead, fails for one that is one hour ahead,
  and fails for a cancelled appointment whatever its date.
\<close>

theorem canBeCancelled_iff:
  "canBeCancelled a now =
     (status a \<in> {Scheduled, Confirmed} \<and> appointmentDate a - now > 2 * 3600000)
   \<and> canBeCancelled (a\<lparr>status := Scheduled, appointmentDate := now + 3 * 3600000\<rparr>) now
   \<and> \<not> canBeCancelled (a\<lparr>status := Scheduled, appointmentDate := now + 1 * 3600000\<rparr>) now
   \<and> \<not> canBeCancelled (a\<lparr>status := Cancelled\<rparr>) now"
proof -
  have q: "(2 < real_of_int x / (1000 * 60 * 60)) = (7200000 < x)" for x :: int
  proof -
    have "(2 < real_of_int x / (1000 * 60 * 60)) = (real_of_int 7200000 < real_of_int x)"
      by (simp add: pos_less_divide_eq)
    also have "\<dots> = (7200000 < x)"
      by (simp only: of_int_less_iff)
    finally show ?thesis .
  qed
  have h: "hoursUntilAppointment b now > 2 \<longleftrightarrow> appointmentDate b - now > 2 * 3600000" for b
    unfolding hoursUntilAppointment_def q by simp
  show ?thesis
    by (simp add: canBeCancelled_def h)
qed

subsection \<open>Reading one appointment\<close>

text \<open>
  Claim C6. When a patient reads an appointment that exists, the answer is 200 with the
  appointment if the patient profile of the actor has the id the appointment carries
  as \<open>patientId\<close>, and 403 with no data otherwise (also when the actor has no patient
  profile).
\<close>

theorem patient_read_access:
  assumes "user_role u = Patient" and "Appointment_findByPk s i = Some a"
  shows "get_appointment s u i =
           (if \<exists>p. Patient_findOne s (user_id u) = Some p \<and> patient_id p = patientId a
            then \<lparr>res_status = 200, res_message = None, res_data = Some a\<rparr>
            else error_response 403 ''Access denied'')"
  using assms
  by (auto simp: get_appointment_def split: option.splits)

theorem patient_read_access_witness:
  "res_status (get_appointment (demo_store [demo_appointment ''a1'' 0 30])
      \<lparr>user_id = ''u1'', user_role = Patient\<rparr> ''a1'') = 200
   \<and> res_status (get_appointment (demo_store [demo_appointment ''a1'' 0 30])
      \<lparr>user_id = ''u2'', user_role = Patient\<rparr> ''a1'') = 403"
proof -
  let ?s = "demo_store [demo_appointment ''a1'' 0 30]"
  have f: "Appointment_findByPk ?s ''a1'' = Some (demo_appointment ''a1'' 0 30)"
    by (simp add: Appointment_findByPk_def demo_store_def demo_appointment_def
        Appointment_create_def)
  have r1: "user_role \<lparr>user_id = ''u1'', user_role = Patient\<rparr> = Patient" by simp
  have r2: "user_role \<lparr>user_id = ''u2'', user_role = Patient\<rparr> = Patient" by simp
  show ?thesis
    using patient_read_access [OF r1 f] patient_read_access [OF r2 f]
    by (simp add: Patient_findOne_def demo_store_def demo_patients_def demo_appointment_def
        Appointment_create_def error_response_def)
qed

subsection \<open>Availability\<close>

text \<open>The rounds of the loop: none once the window is used up, one more otherwise.\<close>

lemma loop_count_done: "dur > 0 \<Longrightarrow> \<not> cur < endTime \<Longrightarrow> loop_count cur endTime dur = 0"
proof -
  assume d: "dur > 0" and c: "\<not> cur < endTime"
  have "endTime - cur + int dur * 60000 - 1 < int dur * 60000" using c by simp
  moreover have "0 < int dur * 60000" using d by simp
  ultimately have "(endTime - cur + int dur * 60000 - 1) div (int dur * 60000) \<le> 0"
    by (smt (verit) div_pos_pos_trivial div_nonpos_pos_le0)
  then show ?thesis by (simp add: loop_count_def)
qed

lemma loop_count_step:
  assumes d: "dur > 0" and c: "cur < endTime"
  shows "loop_count cur endTime dur = Suc (loop_count (cur + int dur * 60000) endTime dur)"
proof -
  define L where "L = int dur * 60000"
  have L: "0 < L" using d by (simp add: L_def)
  define x where "x = endTime - (cur + L) + L - 1"
  have x: "0 \<le> x" using c by (simp add: x_def)
  have e: "endTime - cur + L - 1 = x + L" by (simp add: x_def)
  have "(x + L) div L = x div L + 1" using L by simp
  moreover have "0 \<le> x div L" using x L by (simp add: pos_imp_zdiv_nonneg_iff)
  ultimately have "nat ((endTime - cur + L - 1) div L) = Suc (nat (x div L))"
    unfolding e by (simp add: nat_add_distrib)
  then show ?thesis
    by (simp add: loop_count_def L_def x_def)
qed

lemma chunk_Suc: "chunk cur dur (Suc k) = chunk (cur + int dur * 60000) dur k"
  by (simp add: chunk_def algebra_simps)

lemma map_chunk_Suc:
  "map (chunk cur dur) [0..<Suc n] = chunk cur dur 0 # map (chunk (cur + int dur * 60000) dur) [0..<n]"
proof -
  have "[0..<Suc n] = 0 # map Suc [0..<n]"
    by (simp add: upt_conv_Cons map_Suc_upt del: upt_Suc)
  then show ?thesis by (simp add: chunk_Suc o_def del: upt_Suc)
qed

lemma slot_loop_eq:
  assumes d: "dur > 0"
  shows "slot_loop appts dur endTime cur acc =
           Some (acc @ filter (free_of appts) (map (chunk cur dur) [0..<loop_count cur endTime dur]))"
proof (induction "loop_count cur endTime dur" arbitrary: cur acc)
  case 0
  have "\<not> cur < endTime"
  proof
    assume "cur < endTime"
    from loop_count_step [OF d this] 0 show False by simp
  qed
  then show ?case using 0 by (subst slot_loop.simps) simp
next
  case (Suc n)
  have c: "cur < endTime"
  proof (rule ccontr)
    assume "\<not> cur < endTime"
    from loop_count_done [OF d this] Suc.hyps(2) show False by simp
  qed
  have n: "n = loop_count (cur + int dur * 60000) endTime dur"
    using loop_count_step [OF d c] Suc.hyps(2) by simp
  have f: "free_of appts \<lparr>slot_start = cur, slot_end = cur + int dur * 60000, slot_duration = dur\<rparr> =
          (\<not> list_ex (\<lambda>a. cur < appointmentEnd a \<and> cur + int dur * 60000 > appointmentDate a) appts)"
    by (simp add: free_of_def overlap_def)
  have c0: "chunk cur dur 0 = \<lparr>slot_start = cur, slot_end = cur + int dur * 60000, slot_duration = dur\<rparr>"
    by (simp add: chunk_def)
  show ?case
    apply (subst slot_loop.simps)
    apply (simp only: c if_True Suc.hyps(1) [OF n])
    apply (simp only: Suc.hyps(2) [symmetric] map_chunk_Suc n [symmetric])
    apply (simp add: c0 f del: upt_Suc)
    done
qed

lemma loop_count_iff:
  assumes d: "dur > 0"
  shows "(k < loop_count ws we dur) = (ws + int k * (int dur * 60000) < we)"
proof (induction k arbitrary: ws)
  case 0
  show ?case
  proof (cases "ws < we")
    case True
    then show ?thesis using loop_count_step [OF d True] by simp
  next
    case False
    then show ?thesis using loop_count_done [OF d False] by simp
  qed
next
  case (Suc k)
  show ?case
  proof (cases "ws < we")
    case True
    have "(Suc k < loop_count ws we dur) = (k < loop_count (ws + int dur * 60000) we dur)"
      using loop_count_step [OF d True] by simp
    also have "\<dots> = (ws + int dur * 60000 + int k * (int dur * 60000) < we)"
      by (rule Suc.IH)
    finally show ?thesis by (simp add: algebra_simps)
  next
    case False
    have "0 \<le> int (Suc k) * (int dur * 60000)" by simp
    then have "\<not> ws + int (Suc k) * (int dur * 60000) < we" using False by linarith
    then show ?thesis using loop_count_done [OF d False] by simp
  qed
qed

lemma slot_minutes_pos: "0 < slot_minutes doc"
  by (simp add: slot_minutes_def split: option.splits)

lemma free_of_cong: "set xs = set ys \<Longrightarrow> free_of xs = free_of ys"
  by (auto simp: free_of_def list_ex_iff fun_eq_iff)

text \<open>
  What the route computes, in closed form: the loop always ends; it takes every chunk
  that starts before the end of the window, and keeps those that overlap none of the
  rows of the day.
\<close>

lemma availableSlots_eq:
  "availableSlots s did doc day =
     Some (filter (free_of (Appointment_findAll_day s did day (day + 86399999)))
             (map (chunk (setHours day (startHour doc)) (slot_minutes doc))
                [0..<loop_count (setHours day (startHour doc)) (setHours day (endHour doc))
                       (slot_minutes doc)]))"
  unfolding availableSlots_def Let_def
  by (simp only: slot_loop_eq [OF slot_minutes_pos] append_Nil)

text \<open>
  Where the route and the reference agree: the length of the window is a multiple of
  the consultation length, and every scheduled or confirmed appointment of the doctor
  starts on the requested day.
\<close>

lemma loop_count_dvd:
  assumes d: "0 < dur" and m: "int dur * 60000 dvd we - ws"
  shows "loop_count ws we dur = chunk_count ws we dur"
proof -
  define L where "L = int dur * 60000"
  have L: "0 < L" using d by (simp add: L_def)
  from m obtain q where q: "we - ws = L * q" by (auto simp: L_def dvd_def)
  have "(L * q + L - 1) div L = (L - 1 + q * L) div L" by (simp add: algebra_simps)
  also have "\<dots> = (L - 1) div L + q" using L by simp
  also have "\<dots> = q" using L by (simp add: div_pos_pos_trivial)
  finally have "(we - ws + L - 1) div L = (we - ws) div L" using q L by simp
  then show ?thesis by (simp add: loop_count_def chunk_count_def L_def)
qed

lemma findAll_day_booked:
  assumes "\<forall>a \<in> set (booked s did). day \<le> appointmentDate a \<and> appointmentDate a \<le> day + 86399999"
  shows "set (Appointment_findAll_day s did day (day + 86399999)) = set (booked s did)"
  using assms by (auto simp: Appointment_findAll_day_def booked_def active_def)

lemma availableSlots_agrees:
  assumes "int (slot_minutes doc) * 60000 dvd setHours day (endHour doc) - setHours day (startHour doc)"
    and "\<forall>a \<in> set (booked s did). day \<le> appointmentDate a \<and> appointmentDate a \<le> day + 86399999"
  shows "availableSlots s did doc day =
     Some (reference_slots (booked s did) (setHours day (startHour doc))
             (setHours day (endHour doc)) (slot_minutes doc))"
  unfolding availableSlots_eq reference_slots_def
  by (simp only: loop_count_dvd [OF slot_minutes_pos assms(1)]
        free_of_cong [OF findAll_day_booked [OF assms(2)]])

lemma upt16: "[0..<16] = [0, 1, 2, 3, 4, 5, 6, 7, 8, 9, 10, 11, 12, 13, 14, 15::nat]"
  by code_simp

lemma upt2: "[0..<2] = [0, 1::nat]"
  by code_simp

text \<open>
  The examples of the specification hold: for the window 09:00 to 17:00 with 30 minute
  consultations and no appointment of the doctor the slots are the 16 chunks from
  09:00-09:30 to 16:30-17:00; with one appointment at 10:00 for 30 minutes they are the
  same without the one at 10:00.
\<close>

lemma availableSlots_examples:
  fixes doc :: doctor
  defines "doc9 \<equiv> doc\<lparr>consultationDuration := Some 30,
      availableHours := Some \<lparr>hours_start = Some (9, 0), hours_end = Some (17, 0)\<rparr>\<rparr>"
  shows "booked s did = [] \<Longrightarrow>
           availableSlots s did doc9 day = Some (map (chunk (day + 32400000) 30) [0..<16])"
    and "booked s did = [a] \<Longrightarrow> appointmentDate a = day + 36000000 \<Longrightarrow> duration a = 30 \<Longrightarrow>
           availableSlots s did doc9 day =
             Some (map (chunk (day + 32400000) 30)
                     [0, 1, 3, 4, 5, 6, 7, 8, 9, 10, 11, 12, 13, 14, 15])"
    and "length (map (chunk (day + 32400000) 30) [0..<16]) = 16"
    and "hd (map (chunk (day + 32400000) 30) [0..<16]) =
           \<lparr>slot_start = day + 32400000, slot_end = day + 34200000, slot_duration = 30\<rparr>"
    and "last (map (chunk (day + 32400000) 30) [0..<16]) =
           \<lparr>slot_start = day + 59400000, slot_end = day + 61200000, slot_duration = 30\<rparr>"
proof -
  have m: "int (slot_minutes doc9) * 60000 dvd
      setHours day (endHour doc9) - setHours day (startHour doc9)"
    by (simp add: doc9_def slot_minutes_def setHours_def startHour_def endHour_def)
  show "availableSlots s did doc9 day = Some (map (chunk (day + 32400000) 30) [0..<16])"
    if "booked s did = []"
    using that availableSlots_agrees [OF m, of s did]
    by (simp add: doc9_def reference_slots_def setHours_def startHour_def endHour_def
        slot_minutes_def chunk_count_def free_of_def del: upt_Suc)
  show "availableSlots s did doc9 day =
      Some (map (chunk (day + 32400000) 30) [0, 1, 3, 4, 5, 6, 7, 8, 9, 10, 11, 12, 13, 14, 15])"
    if "booked s did = [a]" "appointmentDate a = day + 36000000" "duration a = 30"
    using that availableSlots_agrees [OF m, of s did]
    by (simp add: doc9_def reference_slots_def setHours_def startHour_def endHour_def
        slot_minutes_def chunk_count_def free_of_def upt16 chunk_def overlap_def
        appointmentEnd_def del: upt_Suc)
  show "length (map (chunk (day + 32400000) 30) [0..<16]) = 16"
    by simp
  show "hd (map (chunk (day + 32400000) 30) [0..<16]) =
      \<lparr>slot_start = day + 32400000, slot_end = day + 34200000, slot_duration = 30\<rparr>"
    by (simp add: upt16 chunk_def del: upt_Suc)
  show "last (map (chunk (day + 32400000) 30) [0..<16]) =
      \<lparr>slot_start = day + 59400000, slot_end = day + 61200000, slot_duration = 30\<rparr>"
    by (simp add: upt16 chunk_def del: upt_Suc)
qed

text \<open>
  Claim C3, at two failing inputs. First, a doctor who receives from 00:00 to 01:00 and
  has a scheduled appointment from 23:45 of the day before to 00:15. The query of the
  route fetches the rows that start on the requested day only, so the slot 00:00-00:30
  is returned although it overlaps the appointment; the reference has the slot
  00:30-01:00 alone, and a booking of the slot 00:00-00:30 is answered 409. Second, a
  doctor who receives from 09:00 to 10:00 with consultations of 45 minutes and has no
  appointment. The loop runs while a chunk starts before the end of the window, so the
  slot 09:45-10:30 is returned, which ends after the window does; the reference has the
  slot 09:00-09:45 alone.
\<close>

theorem availableSlots_leaves_reference:
  "availableSlots (night_store [demo_appointment ''a0'' 85500000 30]) ''d1'' night_doctor 86400000 =
     Some [\<lparr>slot_start = 86400000, slot_end = 88200000, slot_duration = 30\<rparr>,
           \<lparr>slot_start = 88200000, slot_end = 90000000, slot_duration = 30\<rparr>]
   \<and> reference_slots (booked (night_store [demo_appointment ''a0'' 85500000 30]) ''d1'')
       (setHours 86400000 (startHour night_doctor)) (setHours 86400000 (endHour night_doctor))
       (slot_minutes night_doctor) =
     [\<lparr>slot_start = 88200000, slot_end = 90000000, slot_duration = 30\<rparr>]
   \<and> booked (night_store [demo_appointment ''a0'' 85500000 30]) ''d1'' =
       [demo_appointment ''a0'' 85500000 30]
   \<and> overlap 86400000 88200000 (appointmentDate (demo_appointment ''a0'' 85500000 30))
       (appointmentEnd (demo_appointment ''a0'' 85500000 30))
   \<and> post_appointment (night_store [demo_appointment ''a0'' 85500000 30]) 0 ''a1''
       (demo_body 86400000 30) =
     (error_response 409 ''Doctor is not available at the requested time'',
      night_store [demo_appointment ''a0'' 85500000 30])
   \<and> availableSlots (short_store []) ''d1'' short_doctor 0 =
     Some [\<lparr>slot_start = 32400000, slot_end = 35100000, slot_duration = 45\<rparr>,
           \<lparr>slot_start = 35100000, slot_end = 37800000, slot_duration = 45\<rparr>]
   \<and> reference_slots (booked (short_store []) ''d1'')
       (setHours 0 (startHour short_doctor)) (setHours 0 (endHour short_doctor))
       (slot_minutes short_doctor) =
     [\<lparr>slot_start = 32400000, slot_end = 35100000, slot_duration = 45\<rparr>]
   \<and> setHours 0 (endHour short_doctor) = 36000000"
proof -
  note defs = availableSlots_def Appointment_findAll_day_def night_store_def night_doctor_def
      short_store_def short_doctor_def demo_patients_def
      demo_appointment_def Appointment_create_def setHours_def startHour_def endHour_def
      slot_minutes_def booked_def active_def overlap_def appointmentEnd_def
      reference_slots_def chunk_count_def chunk_def free_of_def
  have n1: "availableSlots (night_store [demo_appointment ''a0'' 85500000 30]) ''d1'' night_doctor
       86400000 =
     Some [\<lparr>slot_start = 86400000, slot_end = 88200000, slot_duration = 30\<rparr>,
           \<lparr>slot_start = 88200000, slot_end = 90000000, slot_duration = 30\<rparr>]"
    by (simp add: defs slot_loop.simps)
  have n2: "reference_slots (booked (night_store [demo_appointment ''a0'' 85500000 30]) ''d1'')
       (setHours 86400000 (startHour night_doctor)) (setHours 86400000 (endHour night_doctor))
       (slot_minutes night_doctor) =
     [\<lparr>slot_start = 88200000, slot_end = 90000000, slot_duration = 30\<rparr>]"
    by (simp add: defs upt2)
  have n3: "booked (night_store [demo_appointment ''a0'' 85500000 30]) ''d1'' =
       [demo_appointment ''a0'' 85500000 30]"
    by (simp add: defs)
  have n4: "overlap 86400000 88200000 (appointmentDate (demo_appointment ''a0'' 85500000 30))
       (appointmentEnd (demo_appointment ''a0'' 85500000 30))"
    by (simp add: defs)
  have n5: "post_appointment (night_store [demo_appointment ''a0'' 85500000 30]) 0 ''a1''
       (demo_body 86400000 30) =
     (error_response 409 ''Doctor is not available at the requested time'',
      night_store [demo_appointment ''a0'' 85500000 30])"
    by (simp add: post_appointment_def appointmentValidation_def required_def optional_def
        demo_body_def night_store_def night_doctor_def demo_patients_def demo_appointment_def
        Appointment_create_def Patient_findByPk_def Doctor_findByPk_def
        conflictingAppointment_def duration_of_body_def type_of_body_def)
  have s1: "availableSlots (short_store []) ''d1'' short_doctor 0 =
     Some [\<lparr>slot_start = 32400000, slot_end = 35100000, slot_duration = 45\<rparr>,
           \<lparr>slot_start = 35100000, slot_end = 37800000, slot_duration = 45\<rparr>]"
    by (simp add: defs slot_loop.simps)
  have s2: "reference_slots (booked (short_store []) ''d1'')
       (setHours 0 (startHour short_doctor)) (setHours 0 (endHour short_doctor))
       (slot_minutes short_doctor) =
     [\<lparr>slot_start = 32400000, slot_end = 35100000, slot_duration = 45\<rparr>]"
    by (simp add: defs)
  have s3: "setHours 0 (endHour short_doctor) = 36000000"
    by (simp add: defs)
  show ?thesis
    using n1 n2 n3 n4 n5 s1 s2 s3 by blast
qed

subsection \<open>Booking\<close>




text \<open>
  What the conflict query tests: a scheduled or confirmed row of the doctor that starts
  within \<open>dur\<close> minutes of the proposed start, before or after it, both ends
  included.
\<close>

lemma conflict_window:
  "(conflictingAppointment s did t dur \<noteq> None) =
     (\<exists>a \<in> set (appointments s). doctorId a = did \<and> active a \<and>
        ((t \<le> appointmentDate a \<and> appointmentDate a \<le> t + dur * 60000) \<or>
         (t - dur * 60000 \<le> appointmentDate a \<and> appointmentDate a \<le> t)))"
  by (auto simp: conflictingAppointment_def Let_def find_None_iff active_def)

text \<open>
  Claim C1, at a failing input. The doctor has a scheduled appointment from 09:00 for 240
  minutes. A booking at 10:00 for 15 minutes lies inside it, but the existing row
  starts more than 15 minutes before 10:00, so the query finds nothing: the answer is
  201 and the store holds two overlapping scheduled appointments of the doctor.
\<close>

theorem post_appointment_misses_overlap:
  "post_appointment (demo_store [demo_appointment ''a0'' 32400000 240]) 0 ''a1''
       (demo_body 36000000 15) =
     (\<lparr>res_status = 201, res_message = Some ''Appointment scheduled successfully'',
       res_data = Some (demo_appointment ''a1'' 36000000 15)\<rparr>,
      demo_store [demo_appointment ''a0'' 32400000 240, demo_appointment ''a1'' 36000000 15])
   \<and> appointments_overlap (demo_appointment ''a0'' 32400000 240)
        (demo_appointment ''a1'' 36000000 15)"
  by (simp add: post_appointment_def appointmentValidation_def required_def optional_def
      demo_body_def demo_store_def demo_patients_def day_doctor_def demo_appointment_def
      Appointment_create_def Patient_findByPk_def Doctor_findByPk_def
      conflictingAppointment_def duration_of_body_def type_of_body_def given_def
      appointments_overlap_def active_def overlap_def appointmentEnd_def Let_def)

text \<open>
  Claim C2, at a failing input. The doctor has a scheduled appointment from 09:30 to
  10:00. A booking from 10:00 to 10:30 only touches it, and is answered 409; so is a
  booking from 09:00 to 09:30, which ends when the existing one starts. Neither
  overlaps the existing appointment by the half-open rule.
\<close>

theorem post_appointment_rejects_touching:
  "post_appointment (demo_store [demo_appointment ''a0'' 34200000 30]) 0 ''a1''
       (demo_body 36000000 30) =
     (error_response 409 ''Doctor is not available at the requested time'',
      demo_store [demo_appointment ''a0'' 34200000 30])
   \<and> \<not> overlap 36000000 (36000000 + 30 * 60000)
         (appointmentDate (demo_appointment ''a0'' 34200000 30))
         (appointmentEnd (demo_appointment ''a0'' 34200000 30))
   \<and> post_appointment (demo_store [demo_appointment ''a0'' 34200000 30]) 0 ''a1''
       (demo_body 32400000 30) =
     (error_response 409 ''Doctor is not available at the requested time'',
      demo_store [demo_appointment ''a0'' 34200000 30])
   \<and> \<not> overlap 32400000 (32400000 + 30 * 60000)
         (appointmentDate (demo_appointment ''a0'' 34200000 30))
         (appointmentEnd (demo_appointment ''a0'' 34200000 30))"
  by (simp add: post_appointment_def appointmentValidation_def required_def optional_def
      demo_body_def demo_store_def demo_patients_def day_doctor_def demo_appointment_def
      Appointment_create_def Patient_findByPk_def Doctor_findByPk_def
      conflictingAppointment_def duration_of_body_def type_of_body_def given_def
      overlap_def appointmentEnd_def)




subsection \<open>Audit\<close>

lemma truthy_redacted: "truthy (JStr ''[REDACTED]'')"
  by (simp add: truthy_def)

lemma map_of_redact:
  "map_of (redact f b) k =
     (if k = f \<and> truthy_at b k then Some (JStr ''[REDACTED]'') else map_of b k)"
  by (auto simp: redact_def truthy_at_def update_conv' split: option.splits)

lemma truthy_at_redact: "truthy_at (redact f b) k = truthy_at b k"
  by (auto simp: truthy_at_def map_of_redact truthy_redacted)

lemma map_of_fold_redact:
  "map_of (fold redact fs b) k =
     (if k \<in> set fs \<and> truthy_at b k then Some (JStr ''[REDACTED]'') else map_of b k)"
proof (induction fs arbitrary: b)
  case Nil
  show ?case by simp
next
  case (Cons f fs)
  show ?case
    by (auto simp: Cons.IH truthy_at_redact map_of_redact)
qed

lemma keys_redact: "map fst (redact f b) = map fst b"
  by (auto simp: redact_def update_keys dom_map_of_conv_image_fst [symmetric]
      split: option.splits)

lemma keys_fold_redact: "map fst (fold redact fs b) = map fst b"
  by (induction fs arbitrary: b) (simp_all add: keys_redact)

lemma summary_eq:
  "summary v =
     JObj [(''status'', or_else (prop_of v ''status'') (JStr ''unknown'')),
           (''message'', or_else (prop_of v ''message'') JNull),
           (''dataCount'', JNum (item_count (prop_of v ''data'')))]"
  by (simp add: summary_def item_count_def truthy_def split: option.splits json.splits)

lemma logAction_cases:
  "(logAction data st = (None, st\<lparr>srv_console := srv_console st @ [''Failed to create audit log:'']\<rparr>))
   \<or> (\<exists>e. logAction data st = (Some e, st\<lparr>srv_auditLogs := srv_auditLogs st @ [e]\<rparr>)
        \<and> requestData e = data_requestData data \<and> responseData e = data_responseData data
        \<and> errorMessage e = data_errorMessage data)"
  by (auto simp: logAction_def AuditLog_create_def split: sum.splits)

lemma logAction_down:
  "\<not> srv_auditUp st \<Longrightarrow>
   logAction data st = (None, st\<lparr>srv_console := srv_console st @ [''Failed to create audit log:'']\<rparr>)"
  by (simp add: logAction_def AuditLog_create_def)

lemma store_logAction: "srv_store (snd (logAction data st)) = srv_store st"
  using logAction_cases [of data st] by auto

text \<open>
  The severity the middleware derives for a login, when the request carries no status:
  low, whatever the response will be.
\<close>

lemma login_severity_low:
  assumes "req_statusCode req = None"
    and "str_includes (req_path req) ''/auth/login''"
    and "\<not> str_includes (req_path req) ''/auth/change-password''"
  shows "getActionFromRequest req = ''login_attempt''"
    and "getSeverityFromRequest req (getActionFromRequest req) = ''low''"
  using assms
  by (simp_all add: getActionFromRequest_def getSeverityFromRequest_def at_least_def)

text \<open>
  Claim C7, at a failing input. A login with a wrong password is answered 401. The
  request carries no \<open>statusCode\<close> (the status belongs to the response, and the severity
  is derived before the handler runs), so the test for a failed login is false and the
  row of the middleware has severity low. The row that \<open>auditLoginAttempt\<close> writes for
  a failed login has severity medium. Action, category and outcome are as claimed.
\<close>

theorem failed_login_severity:
  "map (\<lambda>e. (action e, category e, severity e, isSuccessful e))
       (srv_auditLogs (snd (auditLogger failed_login login_request demo_server))) =
     [(''login_attempt'', ''authentication'', ''low'', False)]
   \<and> map (\<lambda>e. (action e, category e, severity e, isSuccessful e))
       (srv_auditLogs (snd (auditLoginAttempt login_request False demo_server))) =
     [(''login_attempt'', ''authentication'', ''medium'', False)]"
  by (simp add: auditLogger_def on_finish_def logAction_def AuditLog_create_def
      getActionFromRequest_def getResourceFromEndpoint_def getCategoryFromRequest_def
      getSeverityFromRequest_def at_least_def login_request_def failed_login_def
      demo_server_def auditLoginAttempt_def logAuthenticationEvent_def Let_def)

text \<open>
  Claim C8, amended. In the stored request data, a property of the body itself that
  has one of the six names and a truthy value is replaced by the marker; every other
  property of the body keeps its value, and the names and their order are kept. The
  stored response data is \<^verbatim>\<open>null\<close> when nothing, an empty string or a falsy value
  was sent; it is the parse failure object when a text was sent that is not JSON, or
  is the JSON \<^verbatim>\<open>null\<close>; otherwise it is the object with exactly the properties status
  (that of the payload if truthy, else unknown), message (that of the payload if
  truthy, else \<^verbatim>\<open>null\<close>) and dataCount (the item count of the data of the payload), and
  nothing else of the payload. The row the middleware writes, when it writes one, holds
  these two values as \<open>requestData\<close> and \<open>responseData\<close>.
\<close>

theorem sanitized_audit_data:
  "map_of (fold redact sensitiveFields b) k =
     (if k \<in> set sensitiveFields \<and> truthy_at b k then Some (JStr ''[REDACTED]'')
      else map_of b k)
   \<and> map fst (fold redact sensitiveFields b) = map fst b
   \<and> sanitizeRequestData (Some b) q p =
       JObj [(''params'', JObj (case p of None \<Rightarrow> [] | Some x \<Rightarrow> x)),
             (''query'', JObj (case q of None \<Rightarrow> [] | Some x \<Rightarrow> x)),
             (''body'', JObj (fold redact sensitiveFields b))]
   \<and> sanitizeResponseData None = JNull
   \<and> sanitizeResponseData (Some (Text t)) =
       (if t = [] then JNull else JObj [(''error'', JStr ''Failed to parse response data'')])
   \<and> sanitizeResponseData (Some (Json_text v)) =
       (if v = JNull then JObj [(''error'', JStr ''Failed to parse response data'')]
        else JObj [(''status'', or_else (prop_of v ''status'') (JStr ''unknown'')),
                   (''message'', or_else (prop_of v ''message'') JNull),
                   (''dataCount'', JNum (item_count (prop_of v ''data'')))])
   \<and> sanitizeResponseData (Some (Object v)) =
       (if truthy v
        then JObj [(''status'', or_else (prop_of v ''status'') (JStr ''unknown'')),
                   (''message'', or_else (prop_of v ''message'') JNull),
                   (''dataCount'', JNum (item_count (prop_of v ''data'')))]
        else JNull)
   \<and> (srv_auditLogs (snd (auditLogger h req st)) = srv_auditLogs st \<or>
      (\<exists>e. srv_auditLogs (snd (auditLogger h req st)) = srv_auditLogs st @ [e]
         \<and> requestData e =
             Some (sanitizeRequestData (req_body req) (req_query req) (req_params req))
         \<and> responseData e = Some (sanitizeResponseData (sent (fst (h req (srv_store st)))))))"
proof -
  have rows: "srv_auditLogs (snd (auditLogger h req st)) = srv_auditLogs st \<or>
      (\<exists>e. srv_auditLogs (snd (auditLogger h req st)) = srv_auditLogs st @ [e]
         \<and> requestData e =
             Some (sanitizeRequestData (req_body req) (req_query req) (req_params req))
         \<and> responseData e = Some (sanitizeResponseData (sent (fst (h req (srv_store st))))))"
  proof -
    obtain res store' where hr: "h req (srv_store st) = (res, store')"
      by (cases "h req (srv_store st)")
    show ?thesis
      unfolding auditLogger_def on_finish_def Let_def hr
      by (simp add: logAction_def AuditLog_create_def)
  qed
  have req: "sanitizeRequestData (Some b) q p =
       JObj [(''params'', JObj (case p of None \<Rightarrow> [] | Some x \<Rightarrow> x)),
             (''query'', JObj (case q of None \<Rightarrow> [] | Some x \<Rightarrow> x)),
             (''body'', JObj (fold redact sensitiveFields b))]"
    by (simp add: sanitizeRequestData_def)
  have r0: "sanitizeResponseData None = JNull"
    by (simp add: sanitizeResponseData_def)
  have r1: "sanitizeResponseData (Some (Text t)) =
       (if t = [] then JNull else JObj [(''error'', JStr ''Failed to parse response data'')])"
    by (simp add: sanitizeResponseData_def payload_truthy_def parse_failure_def)
  have r2: "sanitizeResponseData (Some (Json_text v)) =
       (if v = JNull then JObj [(''error'', JStr ''Failed to parse response data'')]
        else JObj [(''status'', or_else (prop_of v ''status'') (JStr ''unknown'')),
                   (''message'', or_else (prop_of v ''message'') JNull),
                   (''dataCount'', JNum (item_count (prop_of v ''data'')))])"
    by (simp add: sanitizeResponseData_def payload_truthy_def parse_failure_def summary_eq)
  have r3: "sanitizeResponseData (Some (Object v)) =
       (if truthy v
        then JObj [(''status'', or_else (prop_of v ''status'') (JStr ''unknown'')),
                   (''message'', or_else (prop_of v ''message'') JNull),
                   (''dataCount'', JNum (item_count (prop_of v ''data'')))]
        else JNull)"
    by (simp add: sanitizeResponseData_def payload_truthy_def summary_eq)
  show ?thesis
    using map_of_fold_redact [of sensitiveFields b k] keys_fold_redact [of sensitiveFields b]
      req r0 r1 r2 r3 rows
    by blast
qed

text \<open>
  The body of the sample login: the password is replaced, the email is kept. A response
  with a status, a message, three items of data and a token: status, message and the
  count are stored, and nothing else. The row written for the failed login holds the
  body with the password replaced and the summary of the answer.
\<close>

theorem sanitized_audit_data_witness:
  "''password'' \<in> set sensitiveFields
   \<and> truthy_at [(''email'', JStr ''ann@example.org''), (''password'', JStr ''wrong'')] ''password''
   \<and> map_of (fold redact sensitiveFields
        [(''email'', JStr ''ann@example.org''), (''password'', JStr ''wrong'')]) ''password'' =
       Some (JStr ''[REDACTED]'')
   \<and> map_of (fold redact sensitiveFields
        [(''email'', JStr ''ann@example.org''), (''password'', JStr ''wrong'')]) ''email'' =
       Some (JStr ''ann@example.org'')
   \<and> sanitizeResponseData (Some (Json_text (JObj
        [(''status'', JStr ''success''), (''message'', JStr ''ok''),
         (''data'', JArr [JNum 1, JNum 2, JNum 3]), (''token'', JStr ''abc'')]))) =
       JObj [(''status'', JStr ''success''), (''message'', JStr ''ok''), (''dataCount'', JNum 3)]
   \<and> map requestData (srv_auditLogs (snd (auditLogger failed_login login_request demo_server))) =
       [Some (JObj [(''params'', JObj []), (''query'', JObj []),
          (''body'', JObj [(''email'', JStr ''ann@example.org''),
                           (''password'', JStr ''[REDACTED]'')])])]
   \<and> map responseData (srv_auditLogs (snd (auditLogger failed_login login_request demo_server))) =
       [Some (JObj [(''status'', JStr ''error''), (''message'', JStr ''Invalid credentials''),
                    (''dataCount'', JNum 0)])]"
proof -
  note T = sanitized_audit_data
      [of "[(''email'', JStr ''ann@example.org''), (''password'', JStr ''wrong'')]" _ None None _
        "JObj [(''status'', JStr ''success''), (''message'', JStr ''ok''),
               (''data'', JArr [JNum 1, JNum 2, JNum 3]), (''token'', JStr ''abc'')]"
        failed_login login_request demo_server]
  have m: "''password'' \<in> set sensitiveFields"
    by (simp add: sensitiveFields_def)
  have t: "truthy_at [(''email'', JStr ''ann@example.org''), (''password'', JStr ''wrong'')]
      ''password''"
    by (simp add: truthy_at_def truthy_def)
  have w1: "map_of (fold redact sensitiveFields
        [(''email'', JStr ''ann@example.org''), (''password'', JStr ''wrong'')]) ''password'' =
       Some (JStr ''[REDACTED]'')"
    using T [of "''password''"] m t by simp
  have w2: "map_of (fold redact sensitiveFields
        [(''email'', JStr ''ann@example.org''), (''password'', JStr ''wrong'')]) ''email'' =
       Some (JStr ''ann@example.org'')"
    using T [of "''email''"] by (simp add: sensitiveFields_def)
  have w3: "sanitizeResponseData (Some (Json_text (JObj
        [(''status'', JStr ''success''), (''message'', JStr ''ok''),
         (''data'', JArr [JNum 1, JNum 2, JNum 3]), (''token'', JStr ''abc'')]))) =
       JObj [(''status'', JStr ''success''), (''message'', JStr ''ok''), (''dataCount'', JNum 3)]"
    using T [of "''password''"]
    by (simp add: prop_of_def or_else_def truthy_def item_count_def)
  have rows: "srv_auditLogs (snd (auditLogger failed_login login_request demo_server)) \<noteq>
      srv_auditLogs demo_server"
    by (simp add: auditLogger_def on_finish_def logAction_def AuditLog_create_def
        getActionFromRequest_def getResourceFromEndpoint_def getCategoryFromRequest_def
        getSeverityFromRequest_def at_least_def login_request_def failed_login_def
        demo_server_def Let_def)
  from T [of "''password''"] rows obtain e where
    e: "srv_auditLogs (snd (auditLogger failed_login login_request demo_server)) =
          srv_auditLogs demo_server @ [e]"
    and rq: "requestData e = Some (sanitizeRequestData (req_body login_request)
          (req_query login_request) (req_params login_request))"
    and rs: "responseData e = Some (sanitizeResponseData
          (sent (fst (failed_login login_request (srv_store demo_server)))))"
    by blast
  have w4: "map requestData (srv_auditLogs (snd (auditLogger failed_login login_request demo_server))) =
       [Some (JObj [(''params'', JObj []), (''query'', JObj []),
          (''body'', JObj [(''email'', JStr ''ann@example.org''),
                           (''password'', JStr ''[REDACTED]'')])])]"
    unfolding e
    by (simp add: rq demo_server_def login_request_def sanitizeRequestData_def
        sensitiveFields_def redact_def truthy_def)
  have w5: "map responseData (srv_auditLogs (snd (auditLogger failed_login login_request demo_server))) =
       [Some (JObj [(''status'', JStr ''error''), (''message'', JStr ''Invalid credentials''),
                    (''dataCount'', JNum 0)])]"
    unfolding e
    by (simp add: rs demo_server_def failed_login_def sanitizeResponseData_def
        payload_truthy_def summary_eq prop_of_def or_else_def truthy_def item_count_def)
  show ?thesis using m t w1 w2 w3 w4 w5 by blast
qed

text \<open>
  The claim as it stands fails on the request side and on the response side: an empty
  password is stored as it is; a password inside a nested object is stored as it is;
  the stored response data of an answer that is not JSON is the parse failure object,
  and that of a request without an answer is \<^verbatim>\<open>null\<close>, neither of them a summary; and
  the summary carries the count as \<open>dataCount\<close>, with no property \<open>itemCount\<close>.
\<close>

theorem sanitized_audit_data_counterexample:
  "sanitizeRequestData (Some [(''password'', JStr [])]) None None =
     JObj [(''params'', JObj []), (''query'', JObj []),
           (''body'', JObj [(''password'', JStr [])])]
   \<and> map requestData (srv_auditLogs (snd (auditLogger failed_register register_request demo_server))) =
     [Some (JObj [(''params'', JObj []), (''query'', JObj []),
        (''body'', JObj [(''email'', JStr ''ann@example.org''),
                         (''credentials'', JObj [(''password'', JStr ''hunter2'')])])])]
   \<and> sanitizeResponseData (Some (Text ''<html>Bad Gateway</html>'')) =
     JObj [(''error'', JStr ''Failed to parse response data'')]
   \<and> sanitizeResponseData None = JNull
   \<and> map responseData (srv_auditLogs (snd (auditLogger failed_register register_request demo_server))) =
     [Some (JObj [(''status'', JStr ''error''), (''message'', JStr ''Validation failed''),
                  (''dataCount'', JNum 0)])]
   \<and> prop_of (JObj [(''status'', JStr ''error''), (''message'', JStr ''Validation failed''),
                  (''dataCount'', JNum 0)]) ''itemCount'' = None"
  by (simp add: auditLogger_def on_finish_def logAction_def AuditLog_create_def
      getActionFromRequest_def getResourceFromEndpoint_def getCategoryFromRequest_def
      getSeverityFromRequest_def at_least_def register_request_def failed_register_def
      demo_server_def Let_def sanitizeRequestData_def sensitiveFields_def redact_def truthy_def
      sanitizeResponseData_def payload_truthy_def parse_failure_def summary_def prop_of_def
      or_else_def)

text \<open>
  Claim C9. The response the client receives and the entity store after the request
  are those of the route handler, whatever becomes of the audit write. When the audit
  table cannot be reached, no row is added, the failure is written to the console, and
  response and entity store are still those of the handler.
\<close>

theorem audit_failure_is_swallowed:
  "fst (auditLogger h req st) = fst (h req (srv_store st))
   \<and> srv_store (snd (auditLogger h req st)) = snd (h req (srv_store st))
   \<and> fst (auditLogger h req (st\<lparr>srv_auditUp := False\<rparr>)) = fst (h req (srv_store st))
   \<and> srv_store (snd (auditLogger h req (st\<lparr>srv_auditUp := False\<rparr>))) = snd (h req (srv_store st))
   \<and> srv_auditLogs (snd (auditLogger h req (st\<lparr>srv_auditUp := False\<rparr>))) = srv_auditLogs st
   \<and> srv_console (snd (auditLogger h req (st\<lparr>srv_auditUp := False\<rparr>))) =
       srv_console st @ [''Failed to create audit log:'']
   \<and> ((srv_auditLogs (snd (auditLogger h req st)) = srv_auditLogs st \<and>
       srv_console (snd (auditLogger h req st)) =
         srv_console st @ [''Failed to create audit log:'']) \<or>
      (\<exists>e. srv_auditLogs (snd (auditLogger h req st)) = srv_auditLogs st @ [e] \<and>
         srv_console (snd (auditLogger h req st)) = srv_console st))"
proof -
  obtain res store' where hr: "h req (srv_store st) = (res, store')"
    by (cases "h req (srv_store st)")
  have outcome: "(srv_auditLogs (snd (auditLogger h req st)) = srv_auditLogs st \<and>
       srv_console (snd (auditLogger h req st)) =
         srv_console st @ [''Failed to create audit log:'']) \<or>
      (\<exists>e. srv_auditLogs (snd (auditLogger h req st)) = srv_auditLogs st @ [e] \<and>
         srv_console (snd (auditLogger h req st)) = srv_console st)"
    unfolding auditLogger_def on_finish_def Let_def hr
    by (simp add: logAction_def AuditLog_create_def)
  have rest: "fst (auditLogger h req st) = fst (h req (srv_store st))
     \<and> srv_store (snd (auditLogger h req st)) = snd (h req (srv_store st))
     \<and> fst (auditLogger h req (st\<lparr>srv_auditUp := False\<rparr>)) = fst (h req (srv_store st))
     \<and> srv_store (snd (auditLogger h req (st\<lparr>srv_auditUp := False\<rparr>))) =
         snd (h req (srv_store st))
     \<and> srv_auditLogs (snd (auditLogger h req (st\<lparr>srv_auditUp := False\<rparr>))) = srv_auditLogs st
     \<and> srv_console (snd (auditLogger h req (st\<lparr>srv_auditUp := False\<rparr>))) =
         srv_console st @ [''Failed to create audit log:'']"
    by (auto simp: auditLogger_def on_finish_def Let_def store_logAction logAction_down
        split: prod.splits)
  show ?thesis using outcome rest by blast
qed

subsection \<open>Updating an appointment\<close>

lemma set_column_eight:
  assumes "k \<in> set (allowedFields r)" and "set_column (k, v) a = Some a'"
  shows "outside_eight a' = outside_eight a"
  using assms
  by (auto simp: allowedFields_def set_column_def columns_def outside_eight_def outside_five_def
      split: if_splits)

lemma set_column_five:
  assumes "r \<noteq> Doctor" and "k \<in> set (allowedFields r)" and "set_column (k, v) a = Some a'"
  shows "outside_five a' = outside_five a"
  using assms
  by (auto simp: allowedFields_def set_column_def columns_def outside_five_def)

lemma set_columns_eight:
  "\<forall>kv \<in> set kvs. fst kv \<in> set (allowedFields r) \<Longrightarrow> set_columns kvs a = Some a' \<Longrightarrow>
   outside_eight a' = outside_eight a"
proof (induction kvs arbitrary: a)
  case Nil
  then show ?case by simp
next
  case (Cons kv kvs)
  from Cons.prems(2) obtain b where b: "set_column kv a = Some b" and r: "set_columns kvs b = Some a'"
    by (auto split: option.splits)
  have "outside_eight b = outside_eight a"
    using set_column_eight [of "fst kv" r "snd kv" a b] Cons.prems(1) b by simp
  moreover have "outside_eight a' = outside_eight b"
    using Cons.IH [OF _ r] Cons.prems(1) by simp
  ultimately show ?case by simp
qed

lemma set_columns_five:
  "r \<noteq> Doctor \<Longrightarrow> \<forall>kv \<in> set kvs. fst kv \<in> set (allowedFields r) \<Longrightarrow>
   set_columns kvs a = Some a' \<Longrightarrow> outside_five a' = outside_five a"
proof (induction kvs arbitrary: a)
  case Nil
  then show ?case by simp
next
  case (Cons kv kvs)
  from Cons.prems(3) obtain b where b: "set_column kv a = Some b" and r: "set_columns kvs b = Some a'"
    by (auto split: option.splits)
  have "outside_five b = outside_five a"
    using set_column_five [of r "fst kv" "snd kv" a b] Cons.prems(1,2) b by simp
  moreover have "outside_five a' = outside_five b"
    using Cons.IH [OF Cons.prems(1) _ r] Cons.prems(2) by simp
  ultimately show ?case by simp
qed

lemma updateData_keys: "\<forall>kv \<in> set (updateData r body). fst kv \<in> set (allowedFields r)"
  by (auto simp: updateData_def)

lemma replace_row:
  assumes d: "distinct (map appt_id xs)" and a: "find (\<lambda>x. appt_id x = i) xs = Some a"
    and f: "f a' = f a"
  shows "map f (map (\<lambda>x. if appt_id x = appt_id a then a' else x) xs) = map f xs"
proof -
  have ain: "a \<in> set xs" using a by (auto simp: find_Some_iff)
  have "f (if appt_id x = appt_id a then a' else x) = f x" if "x \<in> set xs" for x
  proof (cases "appt_id x = appt_id a")
    case True
    then have "x = a" using d that ain by (meson distinct_map inj_onD)
    then show ?thesis using f by simp
  next
    case False
    then show ?thesis by simp
  qed
  then show ?thesis by simp
qed

lemma put_cases:
  "snd (put_appointment s r) = s \<or>
   (\<exists>a a'. Appointment_findByPk s (put_id r) = Some a \<and>
      set_columns (updateData (user_role (put_user r)) (put_body r)) a = Some a' \<and>
      snd (put_appointment s r) =
        s\<lparr>appointments := map (\<lambda>x. if appt_id x = appt_id a then a' else x) (appointments s)\<rparr>)"
  by (auto simp: put_appointment_def Appointment_update_def split: option.splits sum.splits)

lemma put_eight:
  assumes d: "distinct (map appt_id (appointments s))"
  shows "map outside_eight (appointments (snd (put_appointment s r))) =
         map outside_eight (appointments s)"
  using put_cases [of s r]
proof
  assume "snd (put_appointment s r) = s"
  then show ?thesis by simp
next
  assume "\<exists>a a'. Appointment_findByPk s (put_id r) = Some a \<and>
      set_columns (updateData (user_role (put_user r)) (put_body r)) a = Some a' \<and>
      snd (put_appointment s r) =
        s\<lparr>appointments := map (\<lambda>x. if appt_id x = appt_id a then a' else x) (appointments s)\<rparr>"
  then obtain a a' where f: "find (\<lambda>x. appt_id x = put_id r) (appointments s) = Some a"
    and u: "set_columns (updateData (user_role (put_user r)) (put_body r)) a = Some a'"
    and e: "snd (put_appointment s r) =
        s\<lparr>appointments := map (\<lambda>x. if appt_id x = appt_id a then a' else x) (appointments s)\<rparr>"
    by (auto simp: Appointment_findByPk_def)
  have "outside_eight a' = outside_eight a"
    by (rule set_columns_eight [OF updateData_keys u])
  from replace_row [OF d f this] show ?thesis by (simp add: e)
qed

lemma put_five:
  assumes d: "distinct (map appt_id (appointments s))"
    and nd: "user_role (put_user r) \<noteq> Doctor"
  shows "map outside_five (appointments (snd (put_appointment s r))) =
         map outside_five (appointments s)"
  using put_cases [of s r]
proof
  assume "snd (put_appointment s r) = s"
  then show ?thesis by simp
next
  assume "\<exists>a a'. Appointment_findByPk s (put_id r) = Some a \<and>
      set_columns (updateData (user_role (put_user r)) (put_body r)) a = Some a' \<and>
      snd (put_appointment s r) =
        s\<lparr>appointments := map (\<lambda>x. if appt_id x = appt_id a then a' else x) (appointments s)\<rparr>"
  then obtain a a' where f: "find (\<lambda>x. appt_id x = put_id r) (appointments s) = Some a"
    and u: "set_columns (updateData (user_role (put_user r)) (put_body r)) a = Some a'"
    and e: "snd (put_appointment s r) =
        s\<lparr>appointments := map (\<lambda>x. if appt_id x = appt_id a then a' else x) (appointments s)\<rparr>"
    by (auto simp: Appointment_findByPk_def)
  have "outside_five a' = outside_five a"
    by (rule set_columns_five [OF nd updateData_keys u])
  from replace_row [OF d f this] show ?thesis by (simp add: e)
qed

lemma put_tables:
  "patients (snd (put_appointment s r)) = patients s \<and>
   doctors (snd (put_appointment s r)) = doctors s \<and>
   length (appointments (snd (put_appointment s r))) = length (appointments s)"
  using put_cases [of s r] by auto

lemma column_of_eight:
  assumes "map outside_eight xs = map outside_eight ys"
  shows "map appt_id xs = map appt_id ys \<and> map patientId xs = map patientId ys \<and>
         map doctorId xs = map doctorId ys \<and> map appointmentDate xs = map appointmentDate ys \<and>
         map duration xs = map duration ys"
proof -
  have "map (f \<circ> outside_eight) xs = map (f \<circ> outside_eight) ys" for f :: "appointment \<Rightarrow> 'b"
    using arg_cong [OF assms, of "map f"] by simp
  from this [of appt_id] this [of patientId] this [of doctorId] this [of appointmentDate]
    this [of duration]
  show ?thesis
    by (simp add: o_def outside_eight_def outside_five_def)
qed

text \<open>
  Claim C10. The ids of the appointments being distinct (\<open>id\<close> is the primary key): a
  \<^verbatim>\<open>PUT /appointments/:id\<close> of an actor who is not a doctor, a patient in particular,
  leaves every appointment as it was outside notes, diagnosis, prescription,
  followUpRequired and followUpDate; that of a doctor, outside these and status, cost
  and paymentStatus. For every actor and every body, id, patientId, doctorId,
  appointmentDate and duration of every appointment are unchanged, no row is added or
  removed, and patients and doctors are untouched.
\<close>

theorem put_appointment_frame:
  assumes "distinct (map appt_id (appointments s))"
  shows "(user_role (put_user r) \<noteq> Doctor \<longrightarrow>
            map outside_five (appointments (snd (put_appointment s r))) =
            map outside_five (appointments s))
       \<and> map outside_eight (appointments (snd (put_appointment s r))) =
           map outside_eight (appointments s)
       \<and> map appt_id (appointments (snd (put_appointment s r))) = map appt_id (appointments s)
       \<and> map patientId (appointments (snd (put_appointment s r))) =
           map patientId (appointments s)
       \<and> map doctorId (appointments (snd (put_appointment s r))) = map doctorId (appointments s)
       \<and> map appointmentDate (appointments (snd (put_appointment s r))) =
           map appointmentDate (appointments s)
       \<and> map duration (appointments (snd (put_appointment s r))) = map duration (appointments s)
       \<and> patients (snd (put_appointment s r)) = patients s
       \<and> doctors (snd (put_appointment s r)) = doctors s"
  using put_five [OF assms, of r] put_eight [OF assms, of r]
    column_of_eight [OF put_eight [OF assms, of r]] put_tables [of s r]
  by blast

text \<open>
  A patient sends notes together with a new date, duration, patient, doctor and status
  for the own appointment: the answer is 200 and only the notes are written.
\<close>

theorem put_appointment_frame_witness:
  "distinct (map appt_id (appointments (demo_store [demo_appointment ''a1'' 36000000 30])))
   \<and> user_role (put_user demo_put) \<noteq> Doctor
   \<and> put_appointment (demo_store [demo_appointment ''a1'' 36000000 30]) demo_put =
       (\<lparr>res_status = 200, res_message = Some ''Appointment updated successfully'',
         res_data = Some ((demo_appointment ''a1'' 36000000 30)
                            \<lparr>appt_notes := Some ''bring results''\<rparr>)\<rparr>,
        demo_store [(demo_appointment ''a1'' 36000000 30)\<lparr>appt_notes := Some ''bring results''\<rparr>])
   \<and> map outside_five (appointments
         (snd (put_appointment (demo_store [demo_appointment ''a1'' 36000000 30]) demo_put))) =
       map outside_five (appointments (demo_store [demo_appointment ''a1'' 36000000 30]))"
proof -
  have d: "distinct (map appt_id (appointments (demo_store [demo_appointment ''a1'' 36000000 30])))"
    by (simp add: demo_store_def)
  have r: "user_role (put_user demo_put) \<noteq> Doctor"
    by (simp add: demo_put_def)
  have e: "put_appointment (demo_store [demo_appointment ''a1'' 36000000 30]) demo_put =
       (\<lparr>res_status = 200, res_message = Some ''Appointment updated successfully'',
         res_data = Some ((demo_appointment ''a1'' 36000000 30)
                            \<lparr>appt_notes := Some ''bring results''\<rparr>)\<rparr>,
        demo_store [(demo_appointment ''a1'' 36000000 30)\<lparr>appt_notes := Some ''bring results''\<rparr>])"
    by (simp add: put_appointment_def demo_put_def demo_body_def demo_store_def
        demo_patients_def demo_appointment_def Appointment_create_def appointmentValidation_def
        required_def optional_def Appointment_findByPk_def Patient_findOne_def
        Appointment_update_def updateData_def allowedFields_def set_column_def columns_def
        nullable_def text_column_def)
  from put_appointment_frame [OF d, of demo_put] r d e show ?thesis
    by blast
qed

end
